theory Spec2Isabelle
  imports Main
begin

section \<open>Python values, dictionaries and exceptions\<close>

text \<open>
  The converter works on loosely typed Python values: strings, numbers, lists and
  string-keyed dictionaries.  A dictionary is an association list in insertion order
  (the order \<open>items()\<close> walks it in); floating point numbers are left out.
  Strings are sequences of code points below 256.
\<close>

datatype pyval =
    PNone
  | PBool bool
  | PInt int
  | PStr string
  | PList "pyval list"
  | PDict "(string \<times> pyval) list"

type_synonym pydict = "(string \<times> pyval) list"

text \<open>
  The exceptions the converter can leave through.  \<open>NotModelled\<close> is not a Python
  exception: it marks the inputs on which the outcome is decided by library code that
  is not part of the repository (a non-string handed to the slugifier) or by dictionary
  keys that are not strings.
\<close>

datatype error =
    KeyError pyval
  | TypeError
  | AttributeError
  | NotImplementedError
  | NotModelled

text \<open>Truth value of a Python object, as \<open>if x:\<close> tests it.\<close>

fun truthy :: "pyval \<Rightarrow> bool" where
  "truthy PNone = False"
| "truthy (PBool b) = b"
| "truthy (PInt i) = (i \<noteq> 0)"
| "truthy (PStr s) = (s \<noteq> [])"
| "truthy (PList xs) = (xs \<noteq> [])"
| "truthy (PDict d) = (d \<noteq> [])"

text \<open>\<open>d.get(k)\<close>, \<open>d.get(k, default)\<close>, \<open>d[k]\<close>, \<open>d[k] = v\<close> and \<open>d.update(e)\<close>.\<close>

definition dict_get :: "pydict \<Rightarrow> string \<Rightarrow> pyval" where
  "dict_get d k = (case map_of d k of None \<Rightarrow> PNone | Some v \<Rightarrow> v)"

definition dict_get_default :: "pydict \<Rightarrow> string \<Rightarrow> pyval \<Rightarrow> pyval" where
  "dict_get_default d k dflt = (case map_of d k of None \<Rightarrow> dflt | Some v \<Rightarrow> v)"

definition dict_item :: "pydict \<Rightarrow> string \<Rightarrow> error + pyval" where
  "dict_item d k = (case map_of d k of None \<Rightarrow> Inl (KeyError (PStr k)) | Some v \<Rightarrow> Inr v)"

fun dict_set :: "pydict \<Rightarrow> string \<Rightarrow> pyval \<Rightarrow> pydict" where
  "dict_set [] k v = [(k, v)]"
| "dict_set ((k', v') # d) k v = (if k' = k then (k, v) # d else (k', v') # dict_set d k v)"

fun dict_update :: "pydict \<Rightarrow> pydict \<Rightarrow> pydict" where
  "dict_update d [] = d"
| "dict_update d ((k, v) # e) = dict_update (dict_set d k v) e"

text \<open>
  \<open>x.get(k)\<close> on an arbitrary object (only a dictionary has the method), \<open>x[k]\<close> with
  a string key, and iteration \<open>for y in x\<close>.
\<close>

fun py_get :: "pyval \<Rightarrow> string \<Rightarrow> error + pyval" where
  "py_get (PDict d) k = Inr (dict_get d k)"
| "py_get _ k = Inl AttributeError"

fun py_getitem :: "pyval \<Rightarrow> string \<Rightarrow> error + pyval" where
  "py_getitem (PDict d) k = dict_item d k"
| "py_getitem _ k = Inl TypeError"

fun py_iter :: "pyval \<Rightarrow> error + pyval list" where
  "py_iter (PList xs) = Inr xs"
| "py_iter (PStr s) = Inr (map (\<lambda>c. PStr [c]) s)"
| "py_iter (PDict d) = Inr (map (\<lambda>kv. PStr (fst kv)) d)"
| "py_iter _ = Inl TypeError"

text \<open>A list comprehension whose body may raise: the first exception ends it.\<close>

fun map_result :: "('a \<Rightarrow> error + 'b) \<Rightarrow> 'a list \<Rightarrow> error + 'b list" where
  "map_result f [] = Inr []"
| "map_result f (x # xs) =
     (case f x of
        Inl e \<Rightarrow> Inl e
      | Inr y \<Rightarrow> (case map_result f xs of Inl e \<Rightarrow> Inl e | Inr ys \<Rightarrow> Inr (y # ys)))"

section \<open>String primitives\<close>

text \<open>\<open>str.lower()\<close>, \<open>str.isspace()\<close> and \<open>str.strip()\<close> on code points below 256.\<close>

definition lower_char :: "char \<Rightarrow> char" where
  \<comment> \<open>\<open>A\<close>..\<open>Z\<close> and the Latin-1 capitals move up by 32, which sets bit 5 of the code point.\<close>
  "lower_char c =
     (let n = (of_char c :: nat)
      in if (65 \<le> n \<and> n \<le> 90) \<or> (192 \<le> n \<and> n \<le> 222 \<and> n \<noteq> 215)
         then (case c of Char b0 b1 b2 b3 b4 b5 b6 b7 \<Rightarrow> Char b0 b1 b2 b3 b4 True b6 b7)
         else c)"

definition lower :: "string \<Rightarrow> string" where
  "lower s = map lower_char s"

definition is_space :: "char \<Rightarrow> bool" where
  "is_space c =
     (let n = (of_char c :: nat)
      in (9 \<le> n \<and> n \<le> 13) \<or> (28 \<le> n \<and> n \<le> 32) \<or> n = 133 \<or> n = 160)"

definition strip :: "string \<Rightarrow> string" where
  "strip s = rev (dropWhile is_space (rev (dropWhile is_space s)))"

text \<open>\<open>str(n)\<close> for a counter, which is never negative.\<close>

definition digit_char :: "nat \<Rightarrow> char" where
  "digit_char d = ''0123456789'' ! d"

fun str_nat :: "nat \<Rightarrow> string" where
  "str_nat n =
     (if n < 10 then [digit_char n]
      else str_nat (n div 10) @ [digit_char (n mod 10)])"

declare str_nat.simps [simp del]

section \<open>Library routines outside the repository\<close>

text \<open>
  The converter calls \<open>slugify.slugify\<close>, \<open>json.loads\<close> and \<open>json.dumps\<close>.  They are
  parameters of the model: every function below takes them in a record, and the general
  theorems hold for every choice of them.  \<open>json_loads\<close> returns \<open>None\<close> where the
  library raises \<open>ValueError\<close>.
\<close>

record ext =
  slugify :: "string \<Rightarrow> string"
  json_loads :: "string \<Rightarrow> pyval option"
  json_dumps :: "pyval \<Rightarrow> string"

section \<open>CKAN dataset to Data Package\<close>

subsection \<open>Field parsers\<close>

text \<open>
  Each parser reads the source dictionary and returns the partial result that the
  caller merges into the output.  Where the source writes \<open>d[k]\<close> under the test
  \<open>if d.get(k)\<close> the key is present, so the model reads it with \<open>dict_get\<close>.
\<close>

definition rename_dict_key :: "string \<Rightarrow> string \<Rightarrow> pydict \<Rightarrow> pydict" where
  "rename_dict_key original_key destination_key the_dict =
     (if truthy (dict_get the_dict original_key)
      then [(destination_key, dict_get the_dict original_key)] else [])"

definition parse_ckan_url :: "pydict \<Rightarrow> pydict" where
  "parse_ckan_url dataset_dict =
     (if truthy (dict_get dataset_dict ''ckan_url'')
      then [(''homepage'', dict_get dataset_dict ''ckan_url'')] else [])"

definition parse_notes :: "pydict \<Rightarrow> pydict" where
  "parse_notes dataset_dict =
     (if truthy (dict_get dataset_dict ''notes'')
      then [(''description'', dict_get dataset_dict ''notes'')] else [])"

text \<open>\<open>if d.get(src): acc[dst] = d[src]\<close>, the step the nested builders repeat.\<close>

definition copy_if :: "pydict \<Rightarrow> string \<Rightarrow> string \<Rightarrow> pydict \<Rightarrow> pydict" where
  "copy_if d src dst acc =
     (if truthy (dict_get d src) then dict_set acc dst (dict_get d src) else acc)"

definition parse_license :: "pydict \<Rightarrow> pydict" where
  "parse_license dataset_dict =
     (let dataset_license =
            copy_if dataset_dict ''license_url'' ''url''
              (copy_if dataset_dict ''license_title'' ''title''
                (copy_if dataset_dict ''license_id'' ''type'' []))
      in if dataset_license \<noteq> [] then [(''license'', PDict dataset_license)] else [])"

definition parse_author_and_source :: "pydict \<Rightarrow> pydict" where
  "parse_author_and_source dataset_dict =
     (let source =
            copy_if dataset_dict ''url'' ''web''
              (copy_if dataset_dict ''author_email'' ''email''
                (copy_if dataset_dict ''author'' ''name'' []))
      in if source \<noteq> [] then [(''sources'', PList [PDict source])] else [])"

definition parse_maintainer :: "pydict \<Rightarrow> pydict" where
  "parse_maintainer dataset_dict =
     (let author =
            copy_if dataset_dict ''maintainer_email'' ''email''
              (copy_if dataset_dict ''maintainer'' ''name'' [])
      in if author \<noteq> [] then [(''author'', PDict author)] else [])"

definition parse_tags :: "pydict \<Rightarrow> error + pydict" where
  "parse_tags dataset_dict =
     (case py_iter (dict_get_default dataset_dict ''tags'' (PList [])) of
        Inl e \<Rightarrow> Inl e
      | Inr tags \<Rightarrow>
          (case map_result (\<lambda>tag. py_getitem tag ''name'') tags of
             Inl e \<Rightarrow> Inl e
           | Inr keywords \<Rightarrow>
               Inr (if keywords \<noteq> [] then [(''keywords'', PList keywords)] else [])))"

text \<open>
  \<open>_parse_extras\<close>: the pairs are read first, then every value goes through
  \<open>json.loads\<close> (a \<open>ValueError\<close> or, for a value that is not a string, a \<open>TypeError\<close>
  keeps it as it is), then \<open>dict(extras)\<close> builds the mapping.  A list or a dictionary
  as a key is unhashable there.
\<close>

definition extra_pair :: "pyval \<Rightarrow> error + pyval \<times> pyval" where
  "extra_pair extra =
     (case py_getitem extra ''key'' of
        Inl e \<Rightarrow> Inl e
      | Inr k \<Rightarrow> (case py_getitem extra ''value'' of Inl e \<Rightarrow> Inl e | Inr v \<Rightarrow> Inr (k, v)))"

definition loads_or_keep :: "ext \<Rightarrow> pyval \<Rightarrow> pyval" where
  "loads_or_keep X v =
     (case v of
        PStr s \<Rightarrow> (case json_loads X s of Some w \<Rightarrow> w | None \<Rightarrow> v)
      | _ \<Rightarrow> v)"

fun unhashable :: "pyval \<Rightarrow> bool" where
  "unhashable (PList xs) = True"
| "unhashable (PDict d) = True"
| "unhashable _ = False"

fun is_str :: "pyval \<Rightarrow> bool" where
  "is_str (PStr s) = True"
| "is_str _ = False"

fun str_of :: "pyval \<Rightarrow> string" where
  "str_of (PStr s) = s"
| "str_of _ = []"

definition dict_of_pairs :: "(pyval \<times> pyval) list \<Rightarrow> error + pydict" where
  "dict_of_pairs kvs =
     (if list_ex (\<lambda>kv. unhashable (fst kv)) kvs then Inl TypeError
      else if list_ex (\<lambda>kv. \<not> is_str (fst kv)) kvs then Inl NotModelled
      else Inr (dict_update [] (map (\<lambda>kv. (str_of (fst kv), snd kv)) kvs)))"

definition parse_extras :: "ext \<Rightarrow> pydict \<Rightarrow> error + pydict" where
  "parse_extras X dataset_dict =
     (case py_iter (dict_get_default dataset_dict ''extras'' (PList [])) of
        Inl e \<Rightarrow> Inl e
      | Inr es \<Rightarrow>
          (case map_result extra_pair es of
             Inl e \<Rightarrow> Inl e
           | Inr pairs \<Rightarrow>
               (let extras = map (\<lambda>kv. (fst kv, loads_or_keep X (snd kv))) pairs
                in if extras \<noteq> [] then
                     (case dict_of_pairs extras of
                        Inl e \<Rightarrow> Inl e
                      | Inr m \<Rightarrow> Inr [(''extras'', PDict m)])
                   else Inr [])))"

subsection \<open>Resources\<close>

text \<open>
  \<open>_convert_to_datapackage_resource\<close>.  The argument is whatever the \<open>resources\<close> list
  holds; \<open>.get\<close> exists on a dictionary only.  What the slugifier does with a name that
  is not a string is the library's business.
\<close>

definition resource_name :: "ext \<Rightarrow> pydict \<Rightarrow> pydict \<Rightarrow> error + pydict" where
  "resource_name X resource_dict resource =
     (if truthy (dict_get resource_dict ''name'') then
        (case dict_get resource_dict ''name'' of
           PStr s \<Rightarrow>
             Inr (dict_set (dict_set resource ''name'' (PStr (lower (slugify X s))))
                    ''title'' (PStr s))
         | _ \<Rightarrow> Inl NotModelled)
      else
        (case dict_item resource_dict ''id'' of
           Inl e \<Rightarrow> Inl e
         | Inr i \<Rightarrow> Inr (dict_set resource ''name'' i)))"

definition resource_schema :: "ext \<Rightarrow> pydict \<Rightarrow> pydict \<Rightarrow> pydict" where
  "resource_schema X resource_dict resource =
     (case dict_get resource_dict ''schema'' of
        PStr s \<Rightarrow>
          (case json_loads X s of
             Some v \<Rightarrow> dict_set resource ''schema'' v
           | None \<Rightarrow> dict_set resource ''schema'' (PStr s))
      | PDict m \<Rightarrow> dict_set resource ''schema'' (PDict m)
      | _ \<Rightarrow> resource)"

definition convert_to_datapackage_resource :: "ext \<Rightarrow> pyval \<Rightarrow> error + pydict" where
  "convert_to_datapackage_resource X r =
     (case r of
        PDict resource_dict \<Rightarrow>
          (case resource_name X resource_dict
                  (copy_if resource_dict ''hash'' ''hash''
                    (copy_if resource_dict ''format'' ''format''
                      (copy_if resource_dict ''description'' ''description''
                        (copy_if resource_dict ''url'' ''path'' [])))) of
             Inl e \<Rightarrow> Inl e
           | Inr resource \<Rightarrow> Inr (resource_schema X resource_dict resource))
      | _ \<Rightarrow> Inl AttributeError)"

subsection \<open>Unique resource names\<close>

text \<open>
  The loop at the end of \<open>dataset_to_datapackage\<close>.  \<open>names\<close> maps a name to its
  counter.  As dictionary keys \<open>True\<close> and \<open>1\<close> are one key, and so are \<open>False\<close> and
  \<open>0\<close>; a list or a dictionary cannot be a key; \<open>name + str(counter)\<close> needs a string.
\<close>

fun key_of :: "pyval \<Rightarrow> pyval" where
  "key_of (PBool b) = PInt (if b then 1 else 0)"
| "key_of v = v"

fun unique_names :: "(pyval \<rightharpoonup> nat) \<Rightarrow> pyval list \<Rightarrow> error + pyval list" where
  "unique_names names [] = Inr []"
| "unique_names names (resource # rest) =
     (case py_getitem resource ''name'' of
        Inl e \<Rightarrow> Inl e
      | Inr n \<Rightarrow>
          if unhashable n then Inl TypeError
          else
            (case names (key_of n) of
               Some counter \<Rightarrow>
                 (case (resource, n) of
                    (PDict r, PStr old_resource_name) \<Rightarrow>
                      (case unique_names (names(key_of n \<mapsto> counter + 1)) rest of
                         Inl e \<Rightarrow> Inl e
                       | Inr rs \<Rightarrow>
                           Inr (PDict (dict_set r ''name''
                                  (PStr (old_resource_name @ str_nat counter))) # rs))
                  | _ \<Rightarrow> Inl TypeError)
             | None \<Rightarrow>
                 (case unique_names (names(key_of n \<mapsto> 0)) rest of
                    Inl e \<Rightarrow> Inl e
                  | Inr rs \<Rightarrow> Inr (resource # rs))))"

definition ensure_unique_resource_names :: "pydict \<Rightarrow> error + pydict" where
  "ensure_unique_resource_names datapackage =
     (case py_iter (dict_get_default datapackage ''resources'' (PList [])) of
        Inl e \<Rightarrow> Inl e
      | Inr rs \<Rightarrow>
          (case unique_names Map.empty rs of
             Inl e \<Rightarrow> Inl e
           | Inr rs' \<Rightarrow>
               Inr (if rs' = [] then datapackage
                    else dict_set datapackage ''resources'' (PList rs'))))"

subsection \<open>The conversion\<close>

text \<open>\<open>for parser in parsers: datapackage.update(parser(dataset_dict))\<close>.\<close>

fun run_parsers ::
  "(pydict \<Rightarrow> error + pydict) list \<Rightarrow> pydict \<Rightarrow> pydict \<Rightarrow> error + pydict" where
  "run_parsers [] src acc = Inr acc"
| "run_parsers (parser # parsers) src acc =
     (case parser src of
        Inl e \<Rightarrow> Inl e
      | Inr r \<Rightarrow> run_parsers parsers src (dict_update acc r))"

definition dataset_parsers :: "ext \<Rightarrow> (pydict \<Rightarrow> error + pydict) list" where
  "dataset_parsers X =
     [\<lambda>d. Inr (rename_dict_key ''title'' ''title'' d),
      \<lambda>d. Inr (rename_dict_key ''version'' ''version'' d),
      \<lambda>d. Inr (parse_ckan_url d),
      \<lambda>d. Inr (parse_notes d),
      \<lambda>d. Inr (parse_license d),
      \<lambda>d. Inr (parse_author_and_source d),
      \<lambda>d. Inr (parse_maintainer d),
      parse_tags,
      parse_extras X]"

definition convert_resources :: "ext \<Rightarrow> pydict \<Rightarrow> pydict \<Rightarrow> error + pydict" where
  "convert_resources X dataset_dict datapackage =
     (let resources = dict_get dataset_dict ''resources''
      in if truthy resources then
           (case py_iter resources of
              Inl e \<Rightarrow> Inl e
            | Inr rs \<Rightarrow>
                (case map_result (convert_to_datapackage_resource X) rs of
                   Inl e \<Rightarrow> Inl e
                 | Inr converted \<Rightarrow>
                     Inr (dict_set datapackage ''resources'' (PList (map PDict converted)))))
         else Inr datapackage)"

definition dataset_to_datapackage :: "ext \<Rightarrow> pydict \<Rightarrow> error + pydict" where
  "dataset_to_datapackage X dataset_dict =
     (case dict_item dataset_dict ''name'' of
        Inl e \<Rightarrow> Inl e
      | Inr n \<Rightarrow>
          (case run_parsers (dataset_parsers X) dataset_dict [(''name'', n)] of
             Inl e \<Rightarrow> Inl e
           | Inr datapackage \<Rightarrow>
               (case convert_resources X dataset_dict datapackage of
                  Inl e \<Rightarrow> Inl e
                | Inr datapackage' \<Rightarrow> ensure_unique_resource_names datapackage')))"

section \<open>Data Package to CKAN dataset\<close>

text \<open>
  The argument of \<open>datapackage_to_dataset\<close> is a package object of the datapackage
  library: its \<open>descriptor\<close> dictionary and its list of resource objects.  A resource
  object has a descriptor, the three flags the converter tests and its \<open>source\<close>.
\<close>

record resource =
  descriptor :: pydict
  local :: bool
  remote :: bool
  inline :: bool
  source :: pyval

record package =
  descriptor :: pydict
  resources :: "resource list"

definition datapackage_resource_to_ckan_resource :: "resource \<Rightarrow> error + pydict" where
  "datapackage_resource_to_ckan_resource r =
     (let d = resource.descriptor r;
          resource_dict =
            (if truthy (dict_get d ''name'')
             then [(''name'', if truthy (dict_get d ''title'')
                               then dict_get d ''title'' else dict_get d ''name'')]
             else [])
      in case (if local r then Inr (dict_set resource_dict ''path'' (source r))
               else if remote r then Inr (dict_set resource_dict ''url'' (source r))
               else if inline r then Inr (dict_set resource_dict ''data'' (source r))
               else Inl NotImplementedError) of
           Inl e \<Rightarrow> Inl e
         | Inr resource_dict' \<Rightarrow>
             Inr (copy_if d ''schema'' ''schema''
                   (copy_if d ''hash'' ''hash''
                     (copy_if d ''format'' ''format''
                       (copy_if d ''description'' ''description'' resource_dict')))))"

subsection \<open>Field parsers\<close>

text \<open>
  \<open>_datapackage_parse_license\<close>.  The third test reads \<open>title\<close> again and then
  subscripts the license with \<open>url\<close>, which raises \<open>KeyError\<close> when that key is absent.
\<close>

definition datapackage_parse_license :: "pydict \<Rightarrow> error + pydict" where
  "datapackage_parse_license datapackage_dict =
     (let dataset_license = dict_get datapackage_dict ''license''
      in if truthy dataset_license then
           (case dataset_license of
              PDict l \<Rightarrow>
                (let result = copy_if l ''title'' ''license_title''
                                (copy_if l ''type'' ''license_id'' [])
                 in if truthy (dict_get l ''title'') then
                      (case dict_item l ''url'' of
                         Inl e \<Rightarrow> Inl e
                       | Inr u \<Rightarrow> Inr (dict_set result ''license_url'' u))
                    else Inr result)
            | PStr s \<Rightarrow> Inr [(''license_id'', PStr s)]
            | _ \<Rightarrow> Inr [])
         else Inr [])"

text \<open>
  \<open>_datapackage_parse_sources\<close> reads \<open>sources[0]\<close>: the first element of a list, the
  first character of a string, the key \<open>0\<close> of a dictionary (never there, the keys are
  strings); a number has no subscript.
\<close>

fun first_item :: "pyval \<Rightarrow> error + pyval" where
  \<comment> \<open>called on a truthy value only, so never on an empty list or string\<close>
  "first_item (PList (x # xs)) = Inr x"
| "first_item (PStr (c # cs)) = Inr (PStr [c])"
| "first_item (PDict d) = Inl (KeyError (PInt 0))"
| "first_item _ = Inl TypeError"

definition datapackage_parse_sources :: "pydict \<Rightarrow> error + pydict" where
  "datapackage_parse_sources datapackage_dict =
     (let sources = dict_get datapackage_dict ''sources''
      in if truthy sources then
           (case first_item sources of
              Inl e \<Rightarrow> Inl e
            | Inr (PDict s0) \<Rightarrow>
                Inr (copy_if s0 ''web'' ''url''
                      (copy_if s0 ''email'' ''author_email''
                        (copy_if s0 ''name'' ''author'' [])))
            | Inr _ \<Rightarrow> Inl AttributeError)
         else Inr [])"

text \<open>
  \<open>re.match(r'(?P<name>[^<]+)(?:<(?P<email>\S+)>)?', author)\<close>: the name is the longest
  prefix without \<open><\<close> and must not be empty; the optional group needs \<open><\<close> next, then
  the longest run of non-space characters that still leaves a \<open>>\<close> behind it, so the
  e-mail ends before the last \<open>>\<close> of the run of non-space characters and is not empty.
\<close>

definition email_group :: "string \<Rightarrow> string option" where
  "email_group t =
     (case dropWhile (\<lambda>c. c \<noteq> CHR ''>'') (rev (takeWhile (\<lambda>c. \<not> is_space c) t)) of
        [] \<Rightarrow> None
      | c # p \<Rightarrow> if p = [] then None else Some (rev p))"

definition match_author :: "string \<Rightarrow> (string \<times> string option) option" where
  "match_author author =
     (let name = takeWhile (\<lambda>c. c \<noteq> CHR ''<'') author
      in if name = [] then None
         else Some (name,
                case dropWhile (\<lambda>c. c \<noteq> CHR ''<'') author of
                  [] \<Rightarrow> None
                | c # t \<Rightarrow> email_group t))"

text \<open>
  \<open>_datapackage_parse_author\<close>.  \<open>maintainer.strip()\<close> needs a string; a match that is
  \<open>None\<close> has no \<open>group\<close>.
\<close>

definition emit_maintainer :: "pyval \<Rightarrow> pyval \<Rightarrow> error + pydict" where
  "emit_maintainer maintainer maintainer_email =
     (case (if truthy maintainer then
              (case maintainer of
                 PStr m \<Rightarrow> Inr [(''maintainer'', PStr (strip m))]
               | _ \<Rightarrow> Inl AttributeError)
            else Inr []) of
        Inl e \<Rightarrow> Inl e
      | Inr result \<Rightarrow>
          Inr (if truthy maintainer_email
               then dict_set result ''maintainer_email'' maintainer_email else result))"

definition datapackage_parse_author :: "pydict \<Rightarrow> error + pydict" where
  "datapackage_parse_author datapackage_dict =
     (let author = dict_get datapackage_dict ''author''
      in if truthy author then
           (case author of
              PDict a \<Rightarrow> emit_maintainer (dict_get a ''name'') (dict_get a ''email'')
            | PStr s \<Rightarrow>
                (case match_author s of
                   None \<Rightarrow> Inl AttributeError
                 | Some (name, email) \<Rightarrow>
                     emit_maintainer (PStr name)
                       (case email of None \<Rightarrow> PNone | Some e \<Rightarrow> PStr e))
            | _ \<Rightarrow> emit_maintainer PNone PNone)
         else Inr [])"

definition slugify_tag :: "ext \<Rightarrow> pyval \<Rightarrow> error + pyval" where
  "slugify_tag X keyword =
     (case keyword of
        PStr k \<Rightarrow> Inr (PDict [(''name'', PStr (slugify X k))])
      | _ \<Rightarrow> Inl NotModelled)"

definition datapackage_parse_keywords :: "ext \<Rightarrow> pydict \<Rightarrow> error + pydict" where
  "datapackage_parse_keywords X datapackage_dict =
     (let keywords = dict_get datapackage_dict ''keywords''
      in if truthy keywords then
           (case py_iter keywords of
              Inl e \<Rightarrow> Inl e
            | Inr ks \<Rightarrow>
                (case map_result (slugify_tag X) ks of
                   Inl e \<Rightarrow> Inl e
                 | Inr tags \<Rightarrow> Inr [(''tags'', PList tags)]))
         else Inr [])"

definition known_fields :: "string list" where
  "known_fields =
     [''name'', ''resources'', ''license'', ''title'', ''description'', ''homepage'',
      ''version'', ''sources'', ''author'', ''keywords'']"

fun is_dict_or_list :: "pyval \<Rightarrow> bool" where
  "is_dict_or_list (PDict d) = True"
| "is_dict_or_list (PList xs) = True"
| "is_dict_or_list _ = False"

definition extra_entry :: "ext \<Rightarrow> string \<times> pyval \<Rightarrow> pyval" where
  "extra_entry X kv =
     PDict [(''key'', PStr (fst kv)),
            (''value'', if is_dict_or_list (snd kv) then PStr (json_dumps X (snd kv))
                        else snd kv)]"

definition datapackage_parse_unknown_fields_as_extras :: "ext \<Rightarrow> pydict \<Rightarrow> pydict" where
  "datapackage_parse_unknown_fields_as_extras X datapackage_dict =
     (let extras = filter (\<lambda>kv. fst kv \<notin> set known_fields) datapackage_dict
      in if extras \<noteq> [] then [(''extras'', PList (map (extra_entry X) extras))] else [])"

subsection \<open>The conversion\<close>

definition datapackage_parsers :: "ext \<Rightarrow> (pydict \<Rightarrow> error + pydict) list" where
  "datapackage_parsers X =
     [\<lambda>d. Inr (rename_dict_key ''title'' ''title'' d),
      \<lambda>d. Inr (rename_dict_key ''version'' ''version'' d),
      \<lambda>d. Inr (rename_dict_key ''description'' ''notes'' d),
      datapackage_parse_license,
      datapackage_parse_sources,
      datapackage_parse_author,
      datapackage_parse_keywords X,
      \<lambda>d. Inr (datapackage_parse_unknown_fields_as_extras X d)]"

text \<open>\<open>datapackage.descriptor['name'].lower()\<close>: only a string has \<open>lower\<close>.\<close>

definition lowered_name :: "pydict \<Rightarrow> error + pyval" where
  "lowered_name d =
     (case dict_item d ''name'' of
        Inl e \<Rightarrow> Inl e
      | Inr (PStr s) \<Rightarrow> Inr (PStr (lower s))
      | Inr _ \<Rightarrow> Inl AttributeError)"

definition datapackage_to_dataset :: "ext \<Rightarrow> package \<Rightarrow> error + pydict" where
  "datapackage_to_dataset X datapackage =
     (case lowered_name (package.descriptor datapackage) of
        Inl e \<Rightarrow> Inl e
      | Inr n \<Rightarrow>
          (case run_parsers (datapackage_parsers X) (package.descriptor datapackage)
                  [(''name'', n)] of
             Inl e \<Rightarrow> Inl e
           | Inr dataset_dict \<Rightarrow>
               if resources datapackage \<noteq> [] then
                 (case map_result datapackage_resource_to_ckan_resource
                         (resources datapackage) of
                    Inl e \<Rightarrow> Inl e
                  | Inr rs \<Rightarrow> Inr (dict_set dataset_dict ''resources'' (PList (map PDict rs))))
               else Inr dataset_dict))"

section \<open>A stand-in for the library routines\<close>

text \<open>
  Modelled from the spec: the slugifier and the structured-value codec are collaborators
  outside the repository.  The spec describes the first as a pure function that, given
  any string, returns a lower-case, ASCII, hyphen-joined token sequence, and the second
  as a reversible text/value codec.  The closed evaluations below need some value for the
  parameter; this one lowers the text, takes its runs of \<open>a\<close>..\<open>z\<close> and \<open>0\<close>..\<open>9\<close> as
  the tokens and joins them with hyphens, writes values in the interchange format
  (without escapes inside strings), and reads back only \<open>null\<close>, \<open>true\<close>, \<open>false\<close>
  and unsigned decimal numbers.  No theorem about the converter depends on it.
\<close>

definition is_alnum :: "char \<Rightarrow> bool" where
  "is_alnum c =
     (let n = (of_char c :: nat) in (48 \<le> n \<and> n \<le> 57) \<or> (97 \<le> n \<and> n \<le> 122))"

definition slug_step :: "char \<Rightarrow> string \<times> string list \<Rightarrow> string \<times> string list" where
  "slug_step c st =
     (if is_alnum c then (c # fst st, snd st)
      else ([], if fst st = [] then snd st else fst st # snd st))"

definition slug_tokens :: "string \<Rightarrow> string list" where
  "slug_tokens s =
     (let st = foldr slug_step s ([], [])
      in if fst st = [] then snd st else fst st # snd st)"

fun join_with :: "string \<Rightarrow> string list \<Rightarrow> string" where
  "join_with sep [] = []"
| "join_with sep [x] = x"
| "join_with sep (x # y # ys) = x @ sep @ join_with sep (y # ys)"

definition slugify_spec :: "string \<Rightarrow> string" where
  "slugify_spec s = join_with ''-'' (slug_tokens (lower s))"

definition quoted :: "string \<Rightarrow> string" where
  "quoted s = CHR 0x22 # s @ [CHR 0x22]"

fun json_dumps_spec :: "pyval \<Rightarrow> string" where
  "json_dumps_spec PNone = ''null''"
| "json_dumps_spec (PBool b) = (if b then ''true'' else ''false'')"
| "json_dumps_spec (PInt i) = (if i < 0 then CHR ''-'' # str_nat (nat (- i)) else str_nat (nat i))"
| "json_dumps_spec (PStr s) = quoted s"
| "json_dumps_spec (PList xs) = ''['' @ join_with '', '' (map json_dumps_spec xs) @ '']''"
| "json_dumps_spec (PDict d) =
     ''{'' @ join_with '', '' (map (\<lambda>kv. quoted (fst kv) @ '': '' @ json_dumps_spec (snd kv)) d)
       @ ''}''"

definition digit_val :: "char \<Rightarrow> nat" where
  "digit_val c = of_char c - 48"

definition is_digit :: "char \<Rightarrow> bool" where
  "is_digit c = (let n = (of_char c :: nat) in 48 \<le> n \<and> n \<le> 57)"

definition json_loads_spec :: "string \<Rightarrow> pyval option" where
  "json_loads_spec s =
     (if s = ''null'' then Some PNone
      else if s = ''true'' then Some (PBool True)
      else if s = ''false'' then Some (PBool False)
      else if s \<noteq> [] \<and> list_all is_digit s \<and> (s = ''0'' \<or> hd s \<noteq> CHR ''0'')
      then Some (PInt (int (foldl (\<lambda>a c. 10 * a + digit_val c) 0 s)))
      else None)"

definition ext_spec :: ext where
  "ext_spec =
     \<lparr>slugify = slugify_spec, json_loads = json_loads_spec, json_dumps = json_dumps_spec\<rparr>"

section \<open>Well-formed inputs\<close>

text \<open>
  The converter trusts its input.  The predicates below say what it trusts, following the
  data model of the two formats: \<open>tags\<close> is a list of dictionaries with a \<open>name\<close>,
  \<open>extras\<close> a list of dictionaries with a string \<open>key\<close> and a \<open>value\<close>, \<open>resources\<close> a
  list of dictionaries whose \<open>name\<close>, or \<open>id\<close> when they have no name, is a string; a
  package has a string \<open>name\<close>, its \<open>sources\<close> is a list that begins with a dictionary,
  its \<open>author\<close> a string or a dictionary with a string \<open>name\<close>, its \<open>keywords\<close> a list
  of strings.  Two shapes are left out because the code mishandles them: a license
  object with a title and no \<open>url\<close>, and an author string that begins with \<open><\<close>.
\<close>

fun tag_ok :: "pyval \<Rightarrow> bool" where
  "tag_ok (PDict t) = (map_of t ''name'' \<noteq> None)"
| "tag_ok _ = False"

fun extra_ok :: "pyval \<Rightarrow> bool" where
  "extra_ok (PDict e) = (is_str (dict_get e ''key'') \<and> map_of e ''value'' \<noteq> None)"
| "extra_ok _ = False"

fun resource_ok :: "pyval \<Rightarrow> bool" where
  "resource_ok (PDict r) =
     (if truthy (dict_get r ''name'') then is_str (dict_get r ''name'')
      else (map_of r ''id'' = None \<or> is_str (dict_get r ''id'')))"
| "resource_ok _ = False"

fun list_of :: "(pyval \<Rightarrow> bool) \<Rightarrow> pyval option \<Rightarrow> bool" where
  "list_of ok None = True"
| "list_of ok (Some (PList xs)) = list_all ok xs"
| "list_of ok (Some _) = False"

definition wf_dataset :: "pydict \<Rightarrow> bool" where
  "wf_dataset ds =
     (list_of tag_ok (map_of ds ''tags'') \<and> list_of extra_ok (map_of ds ''extras'')
      \<and> list_of resource_ok (map_of ds ''resources''))"

text \<open>The resources of a dataset, and a resource that has neither a name nor an \<open>id\<close>.\<close>

fun dataset_resources :: "pydict \<Rightarrow> pyval list" where
  "dataset_resources ds = (case map_of ds ''resources'' of Some (PList rs) \<Rightarrow> rs | _ \<Rightarrow> [])"

fun lacks_name_and_id :: "pyval \<Rightarrow> bool" where
  "lacks_name_and_id (PDict r) = (\<not> truthy (dict_get r ''name'') \<and> map_of r ''id'' = None)"
| "lacks_name_and_id _ = False"

fun license_shape :: "pyval \<Rightarrow> bool" where
  "license_shape (PDict l) = (\<not> truthy (dict_get l ''title'') \<or> map_of l ''url'' \<noteq> None)"
| "license_shape _ = True"

fun sources_shape :: "pyval \<Rightarrow> bool" where
  "sources_shape (PList (PDict s # rest)) = True"
| "sources_shape v = (\<not> truthy v)"

fun author_shape :: "pyval \<Rightarrow> bool" where
  "author_shape (PDict a) = (\<not> truthy (dict_get a ''name'') \<or> is_str (dict_get a ''name''))"
| "author_shape (PStr s) = (s = [] \<or> hd s \<noteq> CHR ''<'')"
| "author_shape _ = True"

fun keywords_shape :: "pyval \<Rightarrow> bool" where
  "keywords_shape (PList ks) = list_all is_str ks"
| "keywords_shape v = (\<not> truthy v)"

definition wf_package :: "package \<Rightarrow> bool" where
  "wf_package p =
     (let d = package.descriptor p
      in (map_of d ''name'' = None \<or> is_str (dict_get d ''name''))
         \<and> license_shape (dict_get d ''license'')
         \<and> sources_shape (dict_get d ''sources'')
         \<and> author_shape (dict_get d ''author'')
         \<and> keywords_shape (dict_get d ''keywords''))"

definition has_mode :: "resource \<Rightarrow> bool" where
  "has_mode r = (local r \<or> remote r \<or> inline r)"

section \<open>Dictionaries and list comprehensions\<close>

lemma map_of_dict_set:
  "map_of (dict_set d k v) k' = (if k' = k then Some v else map_of d k')"
  by (induction d) auto

lemma dict_get_dict_set:
  "dict_get (dict_set d k v) k' = (if k' = k then v else dict_get d k')"
  by (simp add: dict_get_def map_of_dict_set)

lemma dict_set_not_Nil: "dict_set d k v \<noteq> []"
  by (cases d) (auto split: if_splits)

lemma dict_set_dict_set: "dict_set (dict_set d k v) k v' = dict_set d k v'"
  by (induction d) auto

lemma map_of_copy_if:
  "map_of (copy_if d src dst acc) k =
     (if k = dst \<and> truthy (dict_get d src) then Some (dict_get d src) else map_of acc k)"
  by (simp add: copy_if_def map_of_dict_set)

lemma map_result_length:
  "map_result f xs = Inr ys \<Longrightarrow> length ys = length xs"
  by (induction xs arbitrary: ys) (auto split: sum.splits)

lemma unique_names_length:
  "unique_names names rs = Inr rs' \<Longrightarrow> length rs' = length rs"
  by (induction rs arbitrary: names rs')
     (auto split: sum.splits if_splits option.splits pyval.splits)

section \<open>Dataset to Data Package: the shape of a run\<close>

lemmas dataset_parser_defs =
  dataset_parsers_def rename_dict_key_def parse_ckan_url_def parse_notes_def
  parse_license_def parse_author_and_source_def parse_maintainer_def parse_tags_def
  parse_extras_def copy_if_def

lemma dataset_parsers_run:
  assumes "parse_tags ds = Inr t" and "parse_extras X ds = Inr x"
  shows "\<exists>dp. run_parsers (dataset_parsers X) ds acc = Inr dp"
  using assms by (simp add: dataset_parsers_def)

lemma convert_named:
  assumes "map_of r ''name'' = Some (PStr s)" and "s \<noteq> []"
  shows "\<exists>d. convert_to_datapackage_resource X (PDict r) = Inr d
           \<and> map_of d ''name'' = Some (PStr (lower (slugify X s)))
           \<and> map_of d ''title'' = Some (PStr s)"
  using assms
  by (auto simp: convert_to_datapackage_resource_def resource_name_def resource_schema_def
      dict_get_def map_of_dict_set split: pyval.splits option.splits)

text \<open>
  With a name, parsers that go through and a non-empty resource list that converts, the
  result is the parsers' output with the renamed resources under \<open>resources\<close>.
\<close>

lemma dataset_to_datapackage_resources:
  assumes "map_of ds ''name'' = Some n"
    and "run_parsers (dataset_parsers X) ds [(''name'', n)] = Inr dp"
    and "map_of ds ''resources'' = Some (PList rs)" and "rs \<noteq> []"
    and "map_result (convert_to_datapackage_resource X) rs = Inr cs"
    and "unique_names Map.empty (map PDict cs) = Inr rs'"
  shows "dataset_to_datapackage X ds = Inr (dict_set dp ''resources'' (PList rs'))"
proof -
  from assms(5) have "length cs = length rs" by (rule map_result_length)
  with assms(4) have "cs \<noteq> []" by auto
  moreover from assms(6) have "length rs' = length cs"
    by (auto dest: unique_names_length)
  ultimately have "rs' \<noteq> []" by auto
  with assms \<open>cs \<noteq> []\<close> show ?thesis
    by (simp add: dataset_to_datapackage_def dict_item_def convert_resources_def
        dict_get_def ensure_unique_resource_names_def dict_get_default_def
        map_of_dict_set dict_set_dict_set)
qed

section \<open>Resource names after the renaming loop\<close>

text \<open>
  Claim C1: after the loop that is to ensure unique resource names, the resources of the
  output have pairwise distinct names, also when a name already has the form of a
  suffixed one.  The loop does not achieve this: with the names \<open>a\<close>, \<open>a\<close>, \<open>a0\<close> (here
  taken from \<open>id\<close>, so that no slugifier is involved) the second resource is renamed to
  \<open>a0\<close>, the name the third one already has and keeps.
\<close>

theorem unique_names_collision:
  "dataset_to_datapackage X
     [(''name'', PStr ''ds''),
      (''resources'', PList [PDict [(''id'', PStr ''a'')], PDict [(''id'', PStr ''a'')],
                             PDict [(''id'', PStr ''a0'')]])]
   = Inr [(''name'', PStr ''ds''),
          (''resources'', PList [PDict [(''name'', PStr ''a'')], PDict [(''name'', PStr ''a0'')],
                                 PDict [(''name'', PStr ''a0'')]])]"
  by (simp add: dataset_to_datapackage_def dataset_parser_defs convert_resources_def
      ensure_unique_resource_names_def dict_get_def dict_get_default_def dict_item_def
      convert_to_datapackage_resource_def resource_name_def resource_schema_def
      str_nat.simps digit_char_def)

text \<open>
  Claim C5: a dataset whose resources are three resources all named \<open>a\<close> converts to
  resources named \<open>a\<close>, \<open>a0\<close>, \<open>a1\<close>, in this order: the first occurrence keeps its
  name and registers the counter 0, each later one gets the counter appended as it was
  before the increment.  The slugifier is assumed to leave \<open>a\<close> alone; the dataset may
  have any other fields as long as its tags and extras parse.
\<close>

theorem three_resources_named_a:
  assumes "map_of ds ''name'' = Some n"
    and "parse_tags ds = Inr t" and "parse_extras X ds = Inr x"
    and "map_of ds ''resources'' = Some (PList [PDict r1, PDict r2, PDict r3])"
    and "map_of r1 ''name'' = Some (PStr ''a'')"
    and "map_of r2 ''name'' = Some (PStr ''a'')"
    and "map_of r3 ''name'' = Some (PStr ''a'')"
    and "lower (slugify X ''a'') = ''a''"
  shows "\<exists>pkg d1 d2 d3. dataset_to_datapackage X ds = Inr pkg
           \<and> map_of pkg ''resources'' = Some (PList [PDict d1, PDict d2, PDict d3])
           \<and> map_of d1 ''name'' = Some (PStr ''a'')
           \<and> map_of d2 ''name'' = Some (PStr ''a0'')
           \<and> map_of d3 ''name'' = Some (PStr ''a1'')"
proof -
  obtain dp where dp: "run_parsers (dataset_parsers X) ds [(''name'', n)] = Inr dp"
    using dataset_parsers_run [OF assms(2,3)] by blast
  obtain c1 where c1: "convert_to_datapackage_resource X (PDict r1) = Inr c1"
      "map_of c1 ''name'' = Some (PStr ''a'')"
    using convert_named [OF assms(5), of X] assms(8) by auto
  obtain c2 where c2: "convert_to_datapackage_resource X (PDict r2) = Inr c2"
      "map_of c2 ''name'' = Some (PStr ''a'')"
    using convert_named [OF assms(6), of X] assms(8) by auto
  obtain c3 where c3: "convert_to_datapackage_resource X (PDict r3) = Inr c3"
      "map_of c3 ''name'' = Some (PStr ''a'')"
    using convert_named [OF assms(7), of X] assms(8) by auto
  have conv: "map_result (convert_to_datapackage_resource X) [PDict r1, PDict r2, PDict r3]
                = Inr [c1, c2, c3]"
    using c1 c2 c3 by simp
  have uniq: "unique_names Map.empty (map PDict [c1, c2, c3])
                = Inr [PDict c1, PDict (dict_set c2 ''name'' (PStr ''a0'')),
                       PDict (dict_set c3 ''name'' (PStr ''a1''))]"
    using c1 c2 c3 by (simp add: dict_item_def str_nat.simps digit_char_def)
  have "dataset_to_datapackage X ds
          = Inr (dict_set dp ''resources''
              (PList [PDict c1, PDict (dict_set c2 ''name'' (PStr ''a0'')),
                      PDict (dict_set c3 ''name'' (PStr ''a1''))]))"
    by (rule dataset_to_datapackage_resources [OF assms(1) dp assms(4) _ conv uniq]) simp
  then show ?thesis
    using c1 by (simp add: map_of_dict_set)
qed

theorem three_resources_named_a_witness:
  "\<exists>pkg d1 d2 d3.
     dataset_to_datapackage ext_spec
       [(''name'', PStr ''ds''),
        (''resources'', PList [PDict [(''name'', PStr ''a''), (''url'', PStr ''http://x/1'')],
                               PDict [(''name'', PStr ''a'')],
                               PDict [(''name'', PStr ''a''), (''id'', PStr ''i3'')]])] = Inr pkg
     \<and> map_of pkg ''resources'' = Some (PList [PDict d1, PDict d2, PDict d3])
     \<and> map_of d1 ''name'' = Some (PStr ''a'')
     \<and> map_of d2 ''name'' = Some (PStr ''a0'')
     \<and> map_of d3 ''name'' = Some (PStr ''a1'')"
proof -
  have sl: "lower (slugify ext_spec ''a'') = ''a''"
    by (simp add: ext_spec_def slugify_spec_def slug_tokens_def slug_step_def is_alnum_def
        lower_def lower_char_def)
  show ?thesis
    by (rule three_resources_named_a [where t = "[]" and x = "[]" and n = "PStr ''ds''"
          and ?r1.0 = "[(''name'', PStr ''a''), (''url'', PStr ''http://x/1'')]"
          and ?r2.0 = "[(''name'', PStr ''a'')]"
          and ?r3.0 = "[(''name'', PStr ''a''), (''id'', PStr ''i3'')]", OF _ _ _ _ _ _ _ sl])
       (simp_all add: parse_tags_def parse_extras_def dict_get_default_def)
qed

section \<open>The required name\<close>

text \<open>
  Claim C9: a dataset whose only key is \<open>name\<close> converts to a package with exactly the
  key \<open>name\<close>, carrying the same value.
\<close>

theorem dataset_with_only_name:
  "dataset_to_datapackage X [(''name'', v)] = Inr [(''name'', v)]"
  by (simp add: dataset_to_datapackage_def dataset_parser_defs convert_resources_def
      ensure_unique_resource_names_def dict_get_def dict_get_default_def dict_item_def)

text \<open>
  Claim C10: a package whose descriptor has no key \<open>name\<close> makes
  \<open>datapackage_to_dataset\<close> fail with the key lookup error for \<open>name\<close>; nothing is
  returned.
\<close>

theorem datapackage_without_name_fails:
  "map_of (package.descriptor p) ''name'' = None \<Longrightarrow>
     datapackage_to_dataset X p = Inl (KeyError (PStr ''name''))"
  by (simp add: datapackage_to_dataset_def lowered_name_def dict_item_def)

theorem datapackage_without_name_fails_witness:
  "map_of (package.descriptor \<lparr>descriptor = [(''title'', PStr ''t'')], resources = []\<rparr>)
      ''name'' = None
   \<and> datapackage_to_dataset ext_spec \<lparr>descriptor = [(''title'', PStr ''t'')], resources = []\<rparr>
       = Inl (KeyError (PStr ''name''))"
  using datapackage_without_name_fails
          [of "\<lparr>descriptor = [(''title'', PStr ''t'')], resources = []\<rparr>" ext_spec]
  by simp

section \<open>Resources of a dataset\<close>

lemma map_of_resource_schema:
  "map_of (resource_schema X r d) k =
     (if k = ''schema'' then
        (case dict_get r ''schema'' of
           PStr t \<Rightarrow> Some (case json_loads X t of Some v \<Rightarrow> v | None \<Rightarrow> PStr t)
         | PDict m \<Rightarrow> Some (PDict m)
         | _ \<Rightarrow> map_of d k)
      else map_of d k)"
  by (simp add: resource_schema_def map_of_dict_set split: pyval.splits option.splits)

text \<open>
  Claim C7: the dataset-side resource converter maps \<open>url\<close> to \<open>path\<close> and copies
  \<open>description\<close>, \<open>format\<close> and \<open>hash\<close>; with a name it sets \<open>name\<close> to the slugified
  name in lower case and \<open>title\<close> to the name itself, without one it takes \<open>id\<close> as the
  name; a string \<open>schema\<close> is decoded, or kept as it is when decoding fails, and a
  mapping \<open>schema\<close> is copied.  A field counts as present when its value is truthy, as
  the source tests it with \<open>if resource_dict.get(...)\<close>.
\<close>

theorem convert_resource_fields:
  assumes "(dict_get r ''name'' = PStr s \<and> s \<noteq> [])
         \<or> (\<not> truthy (dict_get r ''name'') \<and> map_of r ''id'' = Some i)"
  shows "\<exists>d. convert_to_datapackage_resource X (PDict r) = Inr d
     \<and> map_of d ''path'' = (if truthy (dict_get r ''url'') then Some (dict_get r ''url'') else None)
     \<and> map_of d ''description'' =
         (if truthy (dict_get r ''description'') then Some (dict_get r ''description'') else None)
     \<and> map_of d ''format'' =
         (if truthy (dict_get r ''format'') then Some (dict_get r ''format'') else None)
     \<and> map_of d ''hash'' = (if truthy (dict_get r ''hash'') then Some (dict_get r ''hash'') else None)
     \<and> map_of d ''name'' =
         Some (if truthy (dict_get r ''name'') then PStr (lower (slugify X s)) else i)
     \<and> map_of d ''title'' = (if truthy (dict_get r ''name'') then Some (PStr s) else None)
     \<and> map_of d ''schema'' =
         (case dict_get r ''schema'' of
            PStr t \<Rightarrow> Some (case json_loads X t of Some v \<Rightarrow> v | None \<Rightarrow> PStr t)
          | PDict m \<Rightarrow> Some (PDict m)
          | _ \<Rightarrow> None)"
proof -
  let ?base = "copy_if r ''hash'' ''hash'' (copy_if r ''format'' ''format''
                 (copy_if r ''description'' ''description'' (copy_if r ''url'' ''path'' [])))"
  let ?named = "if truthy (dict_get r ''name'')
                then dict_set (dict_set ?base ''name'' (PStr (lower (slugify X s))))
                       ''title'' (PStr s)
                else dict_set ?base ''name'' i"
  have named: "resource_name X r ?base = Inr ?named"
    using assms by (auto simp: resource_name_def dict_item_def)
  have conv: "convert_to_datapackage_resource X (PDict r) = Inr (resource_schema X r ?named)"
    by (simp only: convert_to_datapackage_resource_def pyval.case named sum.case)
  have no_schema: "map_of ?named ''schema'' = None"
    by (simp add: map_of_dict_set map_of_copy_if)
  have schema: "map_of (resource_schema X r ?named) ''schema'' =
         (case dict_get r ''schema'' of
            PStr t \<Rightarrow> Some (case json_loads X t of Some v \<Rightarrow> v | None \<Rightarrow> PStr t)
          | PDict m \<Rightarrow> Some (PDict m)
          | _ \<Rightarrow> None)"
    unfolding map_of_resource_schema no_schema by simp
  have other: "k \<noteq> ''schema'' \<Longrightarrow> map_of (resource_schema X r ?named) k = map_of ?named k"
    for k by (simp add: map_of_resource_schema)
  have path: "map_of (resource_schema X r ?named) ''path'' =
      (if truthy (dict_get r ''url'') then Some (dict_get r ''url'') else None)"
    by (simp add: other map_of_dict_set map_of_copy_if)
  have description: "map_of (resource_schema X r ?named) ''description'' =
      (if truthy (dict_get r ''description'') then Some (dict_get r ''description'') else None)"
    by (simp add: other map_of_dict_set map_of_copy_if)
  have format: "map_of (resource_schema X r ?named) ''format'' =
      (if truthy (dict_get r ''format'') then Some (dict_get r ''format'') else None)"
    by (simp add: other map_of_dict_set map_of_copy_if)
  have hash: "map_of (resource_schema X r ?named) ''hash'' =
      (if truthy (dict_get r ''hash'') then Some (dict_get r ''hash'') else None)"
    by (simp add: other map_of_dict_set map_of_copy_if)
  have name: "map_of (resource_schema X r ?named) ''name'' =
      Some (if truthy (dict_get r ''name'') then PStr (lower (slugify X s)) else i)"
    by (simp add: other map_of_dict_set map_of_copy_if)
  have title: "map_of (resource_schema X r ?named) ''title'' =
      (if truthy (dict_get r ''name'') then Some (PStr s) else None)"
    by (simp add: other map_of_dict_set map_of_copy_if)
  from conv path description format hash name title schema show ?thesis
    by blast
qed

theorem convert_resource_fields_witness:
  "\<exists>d. convert_to_datapackage_resource ext_spec
          (PDict [(''url'', PStr ''http://x/y.csv''), (''name'', PStr ''My File''),
                  (''format'', PStr ''CSV''), (''schema'', PStr ''12''), (''hash'', PStr '''')]) = Inr d
     \<and> map_of d ''path'' = Some (PStr ''http://x/y.csv'')
     \<and> map_of d ''description'' = None
     \<and> map_of d ''format'' = Some (PStr ''CSV'')
     \<and> map_of d ''hash'' = None
     \<and> map_of d ''name'' = Some (PStr ''my-file'')
     \<and> map_of d ''title'' = Some (PStr ''My File'')
     \<and> map_of d ''schema'' = Some (PInt 12)"
proof -
  have sl: "lower (slugify ext_spec ''My File'') = ''my-file''"
    by (simp add: ext_spec_def slugify_spec_def slug_tokens_def slug_step_def is_alnum_def
        lower_def lower_char_def)
  have js: "json_loads ext_spec ''12'' = Some (PInt 12)"
    by (simp add: ext_spec_def json_loads_spec_def is_digit_def digit_val_def)
  show ?thesis
    using convert_resource_fields [of
        "[(''url'', PStr ''http://x/y.csv''), (''name'', PStr ''My File''),
                  (''format'', PStr ''CSV''), (''schema'', PStr ''12''), (''hash'', PStr '''')]"
        "''My File''" PNone ext_spec] sl js
    by (simp add: dict_get_def)
qed

section \<open>Resources of a package: storage modes\<close>

lemma map_result_nth:
  "map_result f xs = Inr ys \<Longrightarrow> i < length xs \<Longrightarrow> f (xs ! i) = Inr (ys ! i)"
proof (induction xs arbitrary: ys i)
  case Nil
  then show ?case by simp
next
  case (Cons x xs)
  then show ?case by (cases i) (auto split: sum.splits)
qed

lemma map_result_Inl:
  "x \<in> set xs \<Longrightarrow> f x = Inl e \<Longrightarrow> \<exists>e'. map_result f xs = Inl e'"
  by (induction xs) (auto split: sum.splits)

lemma map_result_only_error:
  "map_result f xs = Inl e \<Longrightarrow> \<exists>x \<in> set xs. f x = Inl e"
  by (induction xs) (auto split: sum.splits)

lemma resource_to_ckan_error:
  "datapackage_resource_to_ckan_resource r = Inl e \<Longrightarrow> e = NotImplementedError"
  by (auto simp: datapackage_resource_to_ckan_resource_def Let_def split: if_splits)


lemma datapackage_parsers_run:
  assumes "datapackage_parse_license d = Inr l" and "datapackage_parse_sources d = Inr so"
    and "datapackage_parse_author d = Inr a" and "datapackage_parse_keywords X d = Inr k"
  shows "\<exists>dd. run_parsers (datapackage_parsers X) d acc = Inr dd"
  using assms by (simp add: datapackage_parsers_def)

lemma map_result_total:
  "(\<And>x. x \<in> set xs \<Longrightarrow> \<exists>y. f x = Inr y) \<Longrightarrow> \<exists>ys. map_result f xs = Inr ys"
proof (induction xs)
  case Nil
  then show ?case by simp
next
  case (Cons x xs)
  then obtain y where "f x = Inr y" by auto
  moreover from Cons obtain ys where "map_result f xs = Inr ys" by auto
  ultimately show ?case by simp
qed

lemma resource_to_ckan_source:
  assumes "local r \<or> remote r \<or> inline r"
  shows "\<exists>d. datapackage_resource_to_ckan_resource r = Inr d
           \<and> map_of d (if local r then ''path'' else if remote r then ''url'' else ''data'')
               = Some (source r)"
  using assms
  by (auto simp: datapackage_resource_to_ckan_resource_def Let_def map_of_copy_if
      map_of_dict_set)

lemma datapackage_to_dataset_resources:
  assumes "lowered_name (package.descriptor p) = Inr n"
    and "run_parsers (datapackage_parsers X) (package.descriptor p) [(''name'', n)] = Inr dd"
    and "resources p \<noteq> []"
  shows "datapackage_to_dataset X p =
           (case map_result datapackage_resource_to_ckan_resource (resources p) of
              Inl e \<Rightarrow> Inl e
            | Inr rs \<Rightarrow> Inr (dict_set dd ''resources'' (PList (map PDict rs))))"
  using assms by (simp add: datapackage_to_dataset_def)

text \<open>
  Claim C6: \<open>datapackage_to_dataset\<close> emits, for a resource in local mode, \<open>path\<close> set
  to its source, for one in remote mode \<open>url\<close>, for one in inline mode \<open>data\<close>; a
  resource in no mode raises the unsupported-case error and the whole conversion fails
  with nothing returned.  The flags are tested in the order local, remote, inline.
  The statement has the converter of one resource (the first three parts and the first
  half of the last), the conversion of a package whose name is a string, whose license,
  sources, author and keywords parse and whose resources all have a mode: it returns a
  dataset whose \<open>resources\<close> has, at the position of each resource, \<open>path\<close>, \<open>url\<close>
  or \<open>data\<close> set to the source (the fourth part), what every successful conversion
  returns (the fifth), and the failure of a package that holds a resource in no mode,
  with \<open>NotImplementedError\<close> as soon as the name and the parsers went through.
\<close>

theorem storage_modes:
  assumes "i < length (resources p)" and "r = resources p ! i"
  shows "(local r \<longrightarrow>
            (\<exists>d. datapackage_resource_to_ckan_resource r = Inr d
                \<and> map_of d ''path'' = Some (source r)))
       \<and> (\<not> local r \<and> remote r \<longrightarrow>
            (\<exists>d. datapackage_resource_to_ckan_resource r = Inr d
                \<and> map_of d ''url'' = Some (source r)))
       \<and> (\<not> local r \<and> \<not> remote r \<and> inline r \<longrightarrow>
            (\<exists>d. datapackage_resource_to_ckan_resource r = Inr d
                \<and> map_of d ''data'' = Some (source r)))
       \<and> (map_of (package.descriptor p) ''name'' = Some (PStr s)
            \<and> datapackage_parse_license (package.descriptor p) = Inr l
            \<and> datapackage_parse_sources (package.descriptor p) = Inr so
            \<and> datapackage_parse_author (package.descriptor p) = Inr a
            \<and> datapackage_parse_keywords X (package.descriptor p) = Inr k
            \<and> (\<forall>r' \<in> set (resources p). local r' \<or> remote r' \<or> inline r')
          \<longrightarrow> (\<exists>out ds. datapackage_to_dataset X p = Inr out
                \<and> map_of out ''resources'' = Some (PList (map PDict ds))
                \<and> length ds = length (resources p)
                \<and> datapackage_resource_to_ckan_resource r = Inr (ds ! i)
                \<and> map_of (ds ! i)
                     (if local r then ''path'' else if remote r then ''url'' else ''data'')
                    = Some (source r)))
       \<and> (\<forall>out. datapackage_to_dataset X p = Inr out \<longrightarrow>
             (local r \<or> remote r \<or> inline r)
             \<and> (\<exists>ds. map_of out ''resources'' = Some (PList (map PDict ds))
                    \<and> length ds = length (resources p)
                    \<and> datapackage_resource_to_ckan_resource r = Inr (ds ! i)))
       \<and> (\<not> local r \<and> \<not> remote r \<and> \<not> inline r \<longrightarrow>
             datapackage_resource_to_ckan_resource r = Inl NotImplementedError
             \<and> (\<exists>e. datapackage_to_dataset X p = Inl e)
             \<and> (map_of (package.descriptor p) ''name'' = Some (PStr s)
                  \<and> datapackage_parse_license (package.descriptor p) = Inr l
                  \<and> datapackage_parse_sources (package.descriptor p) = Inr so
                  \<and> datapackage_parse_author (package.descriptor p) = Inr a
                  \<and> datapackage_parse_keywords X (package.descriptor p) = Inr k
                \<longrightarrow> datapackage_to_dataset X p = Inl NotImplementedError))"
proof -
  from assms have mem: "r \<in> set (resources p)" and ne: "resources p \<noteq> []" by auto
  have one: "local r \<longrightarrow>
            (\<exists>d. datapackage_resource_to_ckan_resource r = Inr d
                \<and> map_of d ''path'' = Some (source r))"
    using resource_to_ckan_source [of r] by auto
  have two: "\<not> local r \<and> remote r \<longrightarrow>
            (\<exists>d. datapackage_resource_to_ckan_resource r = Inr d
                \<and> map_of d ''url'' = Some (source r))"
    using resource_to_ckan_source [of r] by auto
  have three: "\<not> local r \<and> \<not> remote r \<and> inline r \<longrightarrow>
            (\<exists>d. datapackage_resource_to_ckan_resource r = Inr d
                \<and> map_of d ''data'' = Some (source r))"
    using resource_to_ckan_source [of r] by auto
  have header: "\<exists>dd. lowered_name (package.descriptor p) = Inr (PStr (lower s))
          \<and> run_parsers (datapackage_parsers X) (package.descriptor p)
               [(''name'', PStr (lower s))] = Inr dd"
    if "map_of (package.descriptor p) ''name'' = Some (PStr s)"
      and "datapackage_parse_license (package.descriptor p) = Inr l"
      and "datapackage_parse_sources (package.descriptor p) = Inr so"
      and "datapackage_parse_author (package.descriptor p) = Inr a"
      and "datapackage_parse_keywords X (package.descriptor p) = Inr k"
    using that datapackage_parsers_run [of "package.descriptor p" l so a X k]
    by (simp add: lowered_name_def dict_item_def)
  have four: "\<exists>out ds. datapackage_to_dataset X p = Inr out
                \<and> map_of out ''resources'' = Some (PList (map PDict ds))
                \<and> length ds = length (resources p)
                \<and> datapackage_resource_to_ckan_resource r = Inr (ds ! i)
                \<and> map_of (ds ! i)
                     (if local r then ''path'' else if remote r then ''url'' else ''data'')
                    = Some (source r)"
    if h: "map_of (package.descriptor p) ''name'' = Some (PStr s)
            \<and> datapackage_parse_license (package.descriptor p) = Inr l
            \<and> datapackage_parse_sources (package.descriptor p) = Inr so
            \<and> datapackage_parse_author (package.descriptor p) = Inr a
            \<and> datapackage_parse_keywords X (package.descriptor p) = Inr k
            \<and> (\<forall>r' \<in> set (resources p). local r' \<or> remote r' \<or> inline r')"
  proof -
    from h header obtain dd where
      dd: "lowered_name (package.descriptor p) = Inr (PStr (lower s))"
          "run_parsers (datapackage_parsers X) (package.descriptor p)
               [(''name'', PStr (lower s))] = Inr dd"
      by blast
    have "\<exists>y. datapackage_resource_to_ckan_resource x = Inr y" if "x \<in> set (resources p)" for x
      using that h resource_to_ckan_source [of x] by blast
    then obtain ds where
      ds: "map_result datapackage_resource_to_ckan_resource (resources p) = Inr ds"
      using map_result_total [of "resources p" datapackage_resource_to_ckan_resource] by blast
    from map_result_nth [OF ds assms(1)] assms(2)
    have ri: "datapackage_resource_to_ckan_resource r = Inr (ds ! i)" by simp
    from h mem have "local r \<or> remote r \<or> inline r" by blast
    from resource_to_ckan_source [OF this] ri
    have src: "map_of (ds ! i)
                 (if local r then ''path'' else if remote r then ''url'' else ''data'')
               = Some (source r)" by simp
    have res: "datapackage_to_dataset X p
                 = Inr (dict_set dd ''resources'' (PList (map PDict ds)))"
      using datapackage_to_dataset_resources [OF dd ne] ds by simp
    have look: "map_of (dict_set dd ''resources'' (PList (map PDict ds))) ''resources''
                  = Some (PList (map PDict ds))"
      by (simp add: map_of_dict_set)
    from res look map_result_length [OF ds] ri src show ?thesis by blast
  qed
  have five: "(local r \<or> remote r \<or> inline r)
             \<and> (\<exists>ds. map_of out ''resources'' = Some (PList (map PDict ds))
                    \<and> length ds = length (resources p)
                    \<and> datapackage_resource_to_ckan_resource r = Inr (ds ! i))"
    if out: "datapackage_to_dataset X p = Inr out" for out
  proof -
    from out ne obtain ds dd where
      ds: "map_result datapackage_resource_to_ckan_resource (resources p) = Inr ds"
      and o: "out = dict_set dd ''resources'' (PList (map PDict ds))"
      by (auto simp: datapackage_to_dataset_def split: sum.splits)
    from map_result_nth [OF ds assms(1)] assms(2)
    have ri: "datapackage_resource_to_ckan_resource r = Inr (ds ! i)" by simp
    then have "local r \<or> remote r \<or> inline r"
      by (auto simp: datapackage_resource_to_ckan_resource_def Let_def split: if_splits)
    with o ri map_result_length [OF ds] show ?thesis
      by (auto simp: map_of_dict_set)
  qed
  have six: "datapackage_resource_to_ckan_resource r = Inl NotImplementedError
             \<and> (\<exists>e. datapackage_to_dataset X p = Inl e)
             \<and> (map_of (package.descriptor p) ''name'' = Some (PStr s)
                  \<and> datapackage_parse_license (package.descriptor p) = Inr l
                  \<and> datapackage_parse_sources (package.descriptor p) = Inr so
                  \<and> datapackage_parse_author (package.descriptor p) = Inr a
                  \<and> datapackage_parse_keywords X (package.descriptor p) = Inr k
                \<longrightarrow> datapackage_to_dataset X p = Inl NotImplementedError)"
    if none: "\<not> local r \<and> \<not> remote r \<and> \<not> inline r"
  proof -
    from none have bad: "datapackage_resource_to_ckan_resource r = Inl NotImplementedError"
      by (simp add: datapackage_resource_to_ckan_resource_def Let_def)
    from map_result_Inl [of r "resources p" datapackage_resource_to_ckan_resource, OF mem bad]
    obtain e' where
      e': "map_result datapackage_resource_to_ckan_resource (resources p) = Inl e'"
      by blast
    from map_result_only_error [OF e'] have e'': "e' = NotImplementedError"
      by (auto dest: resource_to_ckan_error)
    have fails: "\<exists>e. datapackage_to_dataset X p = Inl e"
      using e' ne by (auto simp: datapackage_to_dataset_def split: sum.splits)
    have "datapackage_to_dataset X p = Inl NotImplementedError"
      if "map_of (package.descriptor p) ''name'' = Some (PStr s)
                  \<and> datapackage_parse_license (package.descriptor p) = Inr l
                  \<and> datapackage_parse_sources (package.descriptor p) = Inr so
                  \<and> datapackage_parse_author (package.descriptor p) = Inr a
                  \<and> datapackage_parse_keywords X (package.descriptor p) = Inr k"
    proof -
      from that header obtain dd where
        dd: "lowered_name (package.descriptor p) = Inr (PStr (lower s))"
            "run_parsers (datapackage_parsers X) (package.descriptor p)
                 [(''name'', PStr (lower s))] = Inr dd"
        by blast
      show ?thesis
        using datapackage_to_dataset_resources [OF dd ne] e' e'' by simp
    qed
    with bad fails show ?thesis by blast
  qed
  from one two three four five six show ?thesis by blast
qed


theorem storage_modes_witness:
  "datapackage_to_dataset ext_spec
     \<lparr>descriptor = [(''name'', PStr ''Pkg'')],
      resources =
        [\<lparr>resource.descriptor = [(''name'', PStr ''x'')], local = True, remote = False,
          inline = False, source = PStr ''/tmp/x.csv''\<rparr>,
         \<lparr>resource.descriptor = [], local = False, remote = True,
          inline = False, source = PStr ''http://x/y.csv''\<rparr>,
         \<lparr>resource.descriptor = [], local = False, remote = False,
          inline = True, source = PList [PInt 1]\<rparr>]\<rparr>
   = Inr [(''name'', PStr ''pkg''),
          (''resources'',
             PList [PDict [(''name'', PStr ''x''), (''path'', PStr ''/tmp/x.csv'')],
                    PDict [(''url'', PStr ''http://x/y.csv'')],
                    PDict [(''data'', PList [PInt 1])]])]
   \<and> (\<exists>out ds.
         datapackage_to_dataset ext_spec
           \<lparr>descriptor = [(''name'', PStr ''Pkg'')],
            resources =
              [\<lparr>resource.descriptor = [(''name'', PStr ''x'')], local = True, remote = False,
                inline = False, source = PStr ''/tmp/x.csv''\<rparr>,
               \<lparr>resource.descriptor = [], local = False, remote = True,
                inline = False, source = PStr ''http://x/y.csv''\<rparr>,
               \<lparr>resource.descriptor = [], local = False, remote = False,
                inline = True, source = PList [PInt 1]\<rparr>]\<rparr> = Inr out
         \<and> map_of out ''resources'' = Some (PList (map PDict ds))
         \<and> length ds = 3
         \<and> map_of (ds ! 0) ''path'' = Some (PStr ''/tmp/x.csv'')
         \<and> map_of (ds ! 1) ''url'' = Some (PStr ''http://x/y.csv'')
         \<and> map_of (ds ! 2) ''data'' = Some (PList [PInt 1]))
   \<and> datapackage_to_dataset ext_spec
        \<lparr>descriptor = [(''name'', PStr ''Pkg'')],
         resources = [\<lparr>resource.descriptor = [], local = False, remote = False,
                       inline = False, source = PNone\<rparr>]\<rparr>
       = Inl NotImplementedError"
proof -
  let ?l = "\<lparr>resource.descriptor = [(''name'', PStr ''x'')], local = True, remote = False,
           inline = False, source = PStr ''/tmp/x.csv''\<rparr>"
  let ?r = "\<lparr>resource.descriptor = [], local = False, remote = True,
           inline = False, source = PStr ''http://x/y.csv''\<rparr>"
  let ?i = "\<lparr>resource.descriptor = [], local = False, remote = False,
           inline = True, source = PList [PInt 1]\<rparr>"
  let ?m = "\<lparr>resource.descriptor = [], local = False, remote = False,
                       inline = False, source = PNone\<rparr>"
  let ?d = "[(''name'', PStr ''Pkg'')]"
  let ?p = "\<lparr>descriptor = ?d, resources = [?l, ?r, ?i]\<rparr>"
  have li: "datapackage_parse_license ?d = Inr []"
    by (simp add: datapackage_parse_license_def dict_get_def)
  have so: "datapackage_parse_sources ?d = Inr []"
    by (simp add: datapackage_parse_sources_def dict_get_def)
  have au: "datapackage_parse_author ?d = Inr []"
    by (simp add: datapackage_parse_author_def dict_get_def)
  have kw: "datapackage_parse_keywords ext_spec ?d = Inr []"
    by (simp add: datapackage_parse_keywords_def dict_get_def)
  have ev: "datapackage_to_dataset ext_spec ?p
     = Inr [(''name'', PStr ''pkg''),
          (''resources'',
             PList [PDict [(''name'', PStr ''x''), (''path'', PStr ''/tmp/x.csv'')],
                    PDict [(''url'', PStr ''http://x/y.csv'')],
                    PDict [(''data'', PList [PInt 1])]])]"
    by (simp add: datapackage_to_dataset_def lowered_name_def dict_item_def lower_def
        lower_char_def datapackage_parsers_def rename_dict_key_def li so au kw
        datapackage_parse_unknown_fields_as_extras_def known_fields_def dict_get_def
        datapackage_resource_to_ckan_resource_def copy_if_def)
  have s0: "\<exists>out ds. datapackage_to_dataset ext_spec ?p = Inr out
         \<and> map_of out ''resources'' = Some (PList (map PDict ds)) \<and> length ds = 3
         \<and> map_of (ds ! 0) ''path'' = Some (PStr ''/tmp/x.csv'')"
    using storage_modes [of 0 ?p ?l "''Pkg''" "[]" "[]" "[]" ext_spec "[]"] li so au kw
    by (auto simp: numeral_3_eq_3)
  have s1: "\<exists>out ds. datapackage_to_dataset ext_spec ?p = Inr out
         \<and> map_of out ''resources'' = Some (PList (map PDict ds)) \<and> length ds = 3
         \<and> map_of (ds ! 1) ''url'' = Some (PStr ''http://x/y.csv'')"
    using storage_modes [of 1 ?p ?r "''Pkg''" "[]" "[]" "[]" ext_spec "[]"] li so au kw
    by (auto simp: numeral_3_eq_3)
  have s2: "\<exists>out ds. datapackage_to_dataset ext_spec ?p = Inr out
         \<and> map_of out ''resources'' = Some (PList (map PDict ds)) \<and> length ds = 3
         \<and> map_of (ds ! 2) ''data'' = Some (PList [PInt 1])"
    using storage_modes [of 2 ?p ?i "''Pkg''" "[]" "[]" "[]" ext_spec "[]"] li so au kw
    by (auto simp: numeral_3_eq_3)
  have all: "\<exists>out ds. datapackage_to_dataset ext_spec ?p = Inr out
         \<and> map_of out ''resources'' = Some (PList (map PDict ds)) \<and> length ds = 3
         \<and> map_of (ds ! 0) ''path'' = Some (PStr ''/tmp/x.csv'')
         \<and> map_of (ds ! 1) ''url'' = Some (PStr ''http://x/y.csv'')
         \<and> map_of (ds ! 2) ''data'' = Some (PList [PInt 1])"
  proof -
    from s0 obtain out ds where a: "datapackage_to_dataset ext_spec ?p = Inr out"
        "map_of out ''resources'' = Some (PList (map PDict ds))" "length ds = 3"
        "map_of (ds ! 0) ''path'' = Some (PStr ''/tmp/x.csv'')" by blast
    from s1 a(1,2) obtain ds1 where b: "map PDict ds = map PDict ds1"
        "map_of (ds1 ! 1) ''url'' = Some (PStr ''http://x/y.csv'')" by auto
    from s2 a(1,2) obtain ds2 where c: "map PDict ds = map PDict ds2"
        "map_of (ds2 ! 2) ''data'' = Some (PList [PInt 1])" by auto
    have inj: "inj PDict" by (simp add: inj_on_def)
    from b(1) c(1) inj have "ds1 = ds" "ds2 = ds" by (simp_all add: inj_map_eq_map)
    with a b c show ?thesis by blast
  qed
  have bad: "datapackage_to_dataset ext_spec \<lparr>descriptor = ?d, resources = [?m]\<rparr>
               = Inl NotImplementedError"
    using storage_modes [of 0 "\<lparr>descriptor = ?d, resources = [?m]\<rparr>" ?m "''Pkg''" "[]" "[]"
        "[]" ext_spec "[]"] li so au kw
    by simp
  from ev all bad show ?thesis by blast
qed

section \<open>Data Package to dataset: the shape of a run\<close>

lemma keys_dict_set: "fst ` set (dict_set d k v) = insert k (fst ` set d)"
  by (induction d k v rule: dict_set.induct) (simp_all add: insert_commute)

lemma distinct_dict_set:
  "distinct (map fst d) \<Longrightarrow> distinct (map fst (dict_set d k v))"
  by (induction d) (auto simp: keys_dict_set)

lemma distinct_copy_if:
  "distinct (map fst acc) \<Longrightarrow> distinct (map fst (copy_if d src dst acc))"
  by (simp add: copy_if_def distinct_dict_set)

lemma keys_copy_if: "fst ` set (copy_if d src dst acc) \<subseteq> insert dst (fst ` set acc)"
  by (auto simp: copy_if_def keys_dict_set)

lemma map_of_dict_update:
  "distinct (map fst e) \<Longrightarrow>
     map_of (dict_update d e) k = (case map_of e k of Some v \<Rightarrow> Some v | None \<Rightarrow> map_of d k)"
proof (induction e arbitrary: d)
  case Nil
  then show ?case by simp
next
  case (Cons kv e)
  obtain k' v' where kv: "kv = (k', v')" by (cases kv)
  from Cons.prems kv have "map_of e k' = None"
    by (simp add: map_of_eq_None_iff)
  with Cons kv show ?case
    by (auto simp: map_of_dict_set split: option.splits)
qed

lemma map_of_no_key: "k \<notin> fst ` set e \<Longrightarrow> map_of e k = None"
  by (simp add: map_of_eq_None_iff)

text \<open>What each parser of the package side returns: distinct keys, from a fixed set.\<close>

lemma license_result:
  assumes "datapackage_parse_license d = Inr l"
  shows "distinct (map fst l)"
    and "fst ` set l \<subseteq> {''license_id'', ''license_title'', ''license_url''}"
proof -
  let ?b = "\<lambda>m. copy_if m ''title'' ''license_title'' (copy_if m ''type'' ''license_id'' [])"
  have bd: "distinct (map fst (?b m))" for m
    by (simp add: distinct_copy_if)
  have bk: "fst ` set (?b m) \<subseteq> {''license_id'', ''license_title''}" for m
    using keys_copy_if [of m "''title''" "''license_title''"
        "copy_if m ''type'' ''license_id'' []"]
      keys_copy_if [of m "''type''" "''license_id''" "[]"]
    by auto
  from assms consider "l = []" | s where "l = [(''license_id'', PStr s)]"
    | m where "l = ?b m" | m u where "l = dict_set (?b m) ''license_url'' u"
    by (auto simp: datapackage_parse_license_def Let_def
        split: if_splits pyval.splits sum.splits)
  then show "distinct (map fst l)"
    by cases (simp_all add: bd distinct_dict_set)
  from assms consider "l = []" | s where "l = [(''license_id'', PStr s)]"
    | m where "l = ?b m" | m u where "l = dict_set (?b m) ''license_url'' u"
    by (auto simp: datapackage_parse_license_def Let_def
        split: if_splits pyval.splits sum.splits)
  then show "fst ` set l \<subseteq> {''license_id'', ''license_title'', ''license_url''}"
  proof cases
    case 3
    with bk [of m] show ?thesis by auto
  next
    case 4
    with bk [of m] show ?thesis by (auto simp: keys_dict_set)
  qed simp_all
qed


lemma sources_result:
  assumes "datapackage_parse_sources d = Inr so"
  shows "distinct (map fst so)"
    and "fst ` set so \<subseteq> {''author'', ''author_email'', ''url''}"
proof -
  let ?b = "\<lambda>m. copy_if m ''web'' ''url'' (copy_if m ''email'' ''author_email''
                  (copy_if m ''name'' ''author'' []))"
  have bd: "distinct (map fst (?b m))" for m
    by (simp add: distinct_copy_if)
  have bk: "fst ` set (?b m) \<subseteq> {''author'', ''author_email'', ''url''}" for m
    using keys_copy_if [of m "''web''" "''url''"
        "copy_if m ''email'' ''author_email'' (copy_if m ''name'' ''author'' [])"]
      keys_copy_if [of m "''email''" "''author_email''" "copy_if m ''name'' ''author'' []"]
      keys_copy_if [of m "''name''" "''author''" "[]"]
    by auto
  from assms consider "so = []" | m where "so = ?b m"
    by (auto simp: datapackage_parse_sources_def Let_def
        split: if_splits pyval.splits sum.splits)
  then show "distinct (map fst so)"
    by cases (simp_all add: bd)
  from assms consider "so = []" | m where "so = ?b m"
    by (auto simp: datapackage_parse_sources_def Let_def
        split: if_splits pyval.splits sum.splits)
  then show "fst ` set so \<subseteq> {''author'', ''author_email'', ''url''}"
  proof cases
    case 2
    with bk [of m] show ?thesis by auto
  qed simp
qed

lemma emit_maintainer_result:
  assumes "emit_maintainer m e = Inr a"
  shows "distinct (map fst a)" and "fst ` set a \<subseteq> {''maintainer'', ''maintainer_email''}"
proof -
  from assms consider "a = []" | v where "a = [(''maintainer'', v)]"
    | v where "a = dict_set [] ''maintainer_email'' v"
    | v w where "a = dict_set [(''maintainer'', v)] ''maintainer_email'' w"
    by (auto simp: emit_maintainer_def split: if_splits pyval.splits sum.splits)
  then show "distinct (map fst a)" by cases simp_all
  from assms consider "a = []" | v where "a = [(''maintainer'', v)]"
    | v where "a = dict_set [] ''maintainer_email'' v"
    | v w where "a = dict_set [(''maintainer'', v)] ''maintainer_email'' w"
    by (auto simp: emit_maintainer_def split: if_splits pyval.splits sum.splits)
  then show "fst ` set a \<subseteq> {''maintainer'', ''maintainer_email''}" by cases simp_all
qed

lemma author_result:
  assumes "datapackage_parse_author d = Inr a"
  shows "distinct (map fst a)" and "fst ` set a \<subseteq> {''maintainer'', ''maintainer_email''}"
proof -
  from assms have "a = [] \<or> (\<exists>m e. emit_maintainer m e = Inr a)"
    by (auto simp: datapackage_parse_author_def Let_def
        split: if_splits pyval.splits option.splits prod.splits)
  then consider "a = []" | m e where "emit_maintainer m e = Inr a" by blast
  then show "distinct (map fst a)"
    by cases (simp_all add: emit_maintainer_result(1))
  from assms have "a = [] \<or> (\<exists>m e. emit_maintainer m e = Inr a)"
    by (auto simp: datapackage_parse_author_def Let_def
        split: if_splits pyval.splits option.splits prod.splits)
  then consider "a = []" | m e where "emit_maintainer m e = Inr a" by blast
  then show "fst ` set a \<subseteq> {''maintainer'', ''maintainer_email''}"
    by cases (simp_all add: emit_maintainer_result(2))
qed

lemma keywords_result:
  assumes "datapackage_parse_keywords X d = Inr k"
  shows "distinct (map fst k)" and "fst ` set k \<subseteq> {''tags''}"
  using assms
  by (auto simp: datapackage_parse_keywords_def Let_def split: if_splits sum.splits)

lemma unknown_result:
  "distinct (map fst (datapackage_parse_unknown_fields_as_extras X d))"
  "fst ` set (datapackage_parse_unknown_fields_as_extras X d) \<subseteq> {''extras''}"
  by (auto simp: datapackage_parse_unknown_fields_as_extras_def Let_def)

lemma rename_result:
  "distinct (map fst (rename_dict_key a b d))"
  "fst ` set (rename_dict_key a b d) \<subseteq> {b}"
  by (auto simp: rename_dict_key_def)

text \<open>The dataset a package converts to, written out.\<close>

lemma datapackage_to_dataset_explicit:
  assumes "map_of (package.descriptor p) ''name'' = Some (PStr s)"
    and "datapackage_parse_license (package.descriptor p) = Inr l"
    and "datapackage_parse_sources (package.descriptor p) = Inr so"
    and "datapackage_parse_author (package.descriptor p) = Inr a"
    and "datapackage_parse_keywords X (package.descriptor p) = Inr k"
    and "map_result datapackage_resource_to_ckan_resource (resources p) = Inr rs"
  shows "datapackage_to_dataset X p =
     Inr ((if resources p \<noteq> [] then (\<lambda>dd. dict_set dd ''resources'' (PList (map PDict rs)))
           else (\<lambda>dd. dd))
          (dict_update (dict_update (dict_update (dict_update (dict_update (dict_update
            (dict_update (dict_update [(''name'', PStr (lower s))]
              (rename_dict_key ''title'' ''title'' (package.descriptor p)))
              (rename_dict_key ''version'' ''version'' (package.descriptor p)))
              (rename_dict_key ''description'' ''notes'' (package.descriptor p)))
              l) so) a) k)
            (datapackage_parse_unknown_fields_as_extras X (package.descriptor p))))"
  using assms
  by (simp add: datapackage_to_dataset_def lowered_name_def dict_item_def
      datapackage_parsers_def)

lemma map_of_dict_update_add:
  "distinct (map fst e) \<Longrightarrow> map_of (dict_update d e) = map_of d ++ map_of e"
  by (rule ext) (simp add: map_of_dict_update map_add_def)

lemma map_of_dict_set_upd: "map_of (dict_set d k v) = (map_of d)(k \<mapsto> v)"
  by (rule ext) (simp add: map_of_dict_set)

lemma datapackage_to_dataset_lookup:
  assumes "map_of (package.descriptor p) ''name'' = Some (PStr s)"
    and "datapackage_parse_license (package.descriptor p) = Inr l"
    and "datapackage_parse_sources (package.descriptor p) = Inr so"
    and "datapackage_parse_author (package.descriptor p) = Inr a"
    and "datapackage_parse_keywords X (package.descriptor p) = Inr k"
    and "map_result datapackage_resource_to_ckan_resource (resources p) = Inr rs"
  shows "\<exists>out. datapackage_to_dataset X p = Inr out \<and>
     map_of out =
       (if resources p \<noteq> [] then (\<lambda>m. m(''resources'' \<mapsto> PList (map PDict rs)))
        else (\<lambda>m. m))
       ([''name'' \<mapsto> PStr (lower s)]
          ++ map_of (rename_dict_key ''title'' ''title'' (package.descriptor p))
          ++ map_of (rename_dict_key ''version'' ''version'' (package.descriptor p))
          ++ map_of (rename_dict_key ''description'' ''notes'' (package.descriptor p))
          ++ map_of l ++ map_of so ++ map_of a ++ map_of k
          ++ map_of (datapackage_parse_unknown_fields_as_extras X (package.descriptor p)))"
  unfolding datapackage_to_dataset_explicit [OF assms]
  by (simp add: map_of_dict_set_upd map_of_dict_update_add rename_result unknown_result
      license_result(1) [OF assms(2)] sources_result(1) [OF assms(3)]
      author_result(1) [OF assms(4)] keywords_result(1) [OF assms(5)])


lemma datapackage_to_dataset_keys:
  assumes "map_of (package.descriptor p) ''name'' = Some (PStr s)"
    and "datapackage_parse_license (package.descriptor p) = Inr l"
    and "datapackage_parse_sources (package.descriptor p) = Inr so"
    and "datapackage_parse_author (package.descriptor p) = Inr a"
    and "datapackage_parse_keywords X (package.descriptor p) = Inr k"
    and "\<forall>r \<in> set (resources p). local r \<or> remote r \<or> inline r"
  shows "\<exists>out. datapackage_to_dataset X p = Inr out
     \<and> map_of out ''name'' = Some (PStr (lower s))
     \<and> map_of out ''title'' = map_of (rename_dict_key ''title'' ''title'' (package.descriptor p)) ''title''
     \<and> map_of out ''version'' = map_of (rename_dict_key ''version'' ''version'' (package.descriptor p)) ''version''
     \<and> map_of out ''notes'' = map_of (rename_dict_key ''description'' ''notes'' (package.descriptor p)) ''notes''
     \<and> map_of out ''license_id'' = map_of l ''license_id''
     \<and> map_of out ''license_title'' = map_of l ''license_title''
     \<and> map_of out ''license_url'' = map_of l ''license_url''
     \<and> map_of out ''maintainer'' = map_of a ''maintainer''
     \<and> map_of out ''maintainer_email'' = map_of a ''maintainer_email''
     \<and> map_of out ''tags'' = map_of k ''tags''
     \<and> map_of out ''extras'' =
          map_of (datapackage_parse_unknown_fields_as_extras X (package.descriptor p)) ''extras''"
proof -
  have "\<exists>y. datapackage_resource_to_ckan_resource x = Inr y" if "x \<in> set (resources p)" for x
    using that assms(6) resource_to_ckan_source [of x] by blast
  then obtain rs where
    rs: "map_result datapackage_resource_to_ckan_resource (resources p) = Inr rs"
    using map_result_total [of "resources p" datapackage_resource_to_ckan_resource] by blast
  let ?d = "package.descriptor p"
  have nl: "map_of l key = None"
    if "key \<notin> {''license_id'', ''license_title'', ''license_url''}" for key
    using that license_result(2) [OF assms(2)] by (intro map_of_no_key) blast
  have ns: "map_of so key = None" if "key \<notin> {''author'', ''author_email'', ''url''}" for key
    using that sources_result(2) [OF assms(3)] by (intro map_of_no_key) blast
  have na: "map_of a key = None" if "key \<notin> {''maintainer'', ''maintainer_email''}" for key
    using that author_result(2) [OF assms(4)] by (intro map_of_no_key) blast
  have nk: "map_of k key = None" if "key \<noteq> ''tags''" for key
    using that keywords_result(2) [OF assms(5)] by (intro map_of_no_key) blast
  have ne: "map_of (datapackage_parse_unknown_fields_as_extras X ?d) key = None"
    if "key \<noteq> ''extras''" for key
    using that unknown_result(2) [of X ?d] by (intro map_of_no_key) blast
  have nr: "map_of (rename_dict_key x y ?d) key = None" if "key \<noteq> y" for key x y
    using that rename_result(2) [of x y ?d] by (intro map_of_no_key) blast
  from datapackage_to_dataset_lookup [OF assms(1-5) rs] obtain out where
    out: "datapackage_to_dataset X p = Inr out"
    and look: "map_of out =
       (if resources p \<noteq> [] then (\<lambda>m. m(''resources'' \<mapsto> PList (map PDict rs)))
        else (\<lambda>m. m))
       ([''name'' \<mapsto> PStr (lower s)]
          ++ map_of (rename_dict_key ''title'' ''title'' ?d)
          ++ map_of (rename_dict_key ''version'' ''version'' ?d)
          ++ map_of (rename_dict_key ''description'' ''notes'' ?d)
          ++ map_of l ++ map_of so ++ map_of a ++ map_of k
          ++ map_of (datapackage_parse_unknown_fields_as_extras X ?d))"
    by blast
  have 1: "map_of out ''name'' = Some (PStr (lower s))"
    unfolding look by (simp add: map_add_def nl ns na nk ne nr split: option.splits)
  have 2: "map_of out ''title'' = map_of (rename_dict_key ''title'' ''title'' ?d) ''title''"
    unfolding look by (simp add: map_add_def nl ns na nk ne nr split: option.splits)
  have 3: "map_of out ''version'' = map_of (rename_dict_key ''version'' ''version'' ?d) ''version''"
    unfolding look by (simp add: map_add_def nl ns na nk ne nr split: option.splits)
  have 4: "map_of out ''notes'' = map_of (rename_dict_key ''description'' ''notes'' ?d) ''notes''"
    unfolding look by (simp add: map_add_def nl ns na nk ne nr split: option.splits)
  have 5: "map_of out ''license_id'' = map_of l ''license_id''"
    unfolding look by (simp add: map_add_def ns na nk ne nr split: option.splits)
  have 6: "map_of out ''license_title'' = map_of l ''license_title''"
    unfolding look by (simp add: map_add_def ns na nk ne nr split: option.splits)
  have 7: "map_of out ''license_url'' = map_of l ''license_url''"
    unfolding look by (simp add: map_add_def ns na nk ne nr split: option.splits)
  have 8: "map_of out ''maintainer'' = map_of a ''maintainer''"
    unfolding look by (simp add: map_add_def nl ns nk ne nr split: option.splits)
  have 9: "map_of out ''maintainer_email'' = map_of a ''maintainer_email''"
    unfolding look by (simp add: map_add_def nl ns nk ne nr split: option.splits)
  have 10: "map_of out ''tags'' = map_of k ''tags''"
    unfolding look by (simp add: map_add_def nl ns na ne nr split: option.splits)
  have 11: "map_of out ''extras'' =
          map_of (datapackage_parse_unknown_fields_as_extras X ?d) ''extras''"
    unfolding look by (simp add: map_add_def nl ns na nk nr split: option.splits)
  from out 1 2 3 4 5 6 7 8 9 10 11 show ?thesis by blast
qed

section \<open>The license of a package\<close>




section \<open>The author of a package\<close>

lemma match_author_name:
  assumes "au \<noteq> []" and "hd au \<noteq> CHR ''<''"
  shows "match_author au =
           Some (takeWhile (\<lambda>c. c \<noteq> CHR ''<'') au,
                 case dropWhile (\<lambda>c. c \<noteq> CHR ''<'') au of [] \<Rightarrow> None | c # t \<Rightarrow> email_group t)"
  using assms by (cases au) (simp_all add: match_author_def)

lemma match_author_plain:
  assumes "au \<noteq> []" and "CHR ''<'' \<notin> set au"
  shows "match_author au = Some (au, None)"
proof -
  from assms have hd: "hd au \<noteq> CHR ''<''" by (cases au) auto
  from assms(2) have all: "\<forall>c \<in> set au. c \<noteq> CHR ''<''" by auto
  then have tw: "takeWhile (\<lambda>c. c \<noteq> CHR ''<'') au = au"
    by (simp add: takeWhile_eq_all_conv)
  from all have dw: "dropWhile (\<lambda>c. c \<noteq> CHR ''<'') au = []"
    by simp
  show ?thesis
    unfolding match_author_name [OF assms(1) hd] tw dw by simp
qed

lemma parse_author_no_email:
  assumes "map_of d ''author'' = Some (PStr au)" and "match_author au = Some (n, None)"
  shows "au \<noteq> [] \<Longrightarrow> datapackage_parse_author d = Inr [(''maintainer'', PStr (strip n))]"
    and "n = takeWhile (\<lambda>c. c \<noteq> CHR ''<'') au"
proof -
  from assms(2) have n: "n = takeWhile (\<lambda>c. c \<noteq> CHR ''<'') au" and ne: "n \<noteq> []"
    by (auto simp: match_author_def Let_def split: if_splits)
  show "n = takeWhile (\<lambda>c. c \<noteq> CHR ''<'') au" by (rule n)
  show "au \<noteq> [] \<Longrightarrow> datapackage_parse_author d = Inr [(''maintainer'', PStr (strip n))]"
    using assms ne by (simp add: datapackage_parse_author_def dict_get_def emit_maintainer_def)
qed

lemma parse_author_jane:
  assumes "map_of d ''author'' = Some (PStr ''Jane Doe <jane@x.org>'')"
  shows "datapackage_parse_author d =
           Inr [(''maintainer'', PStr ''Jane Doe''), (''maintainer_email'', PStr ''jane@x.org'')]"
  using assms
  by (simp add: datapackage_parse_author_def dict_get_def match_author_def email_group_def
      emit_maintainer_def strip_def is_space_def)

text \<open>
  Claim C8 says that the author \<open>Jane Doe <jane@x.org>\<close> gives the maintainer
  \<open>Jane Doe\<close> and the e-mail \<open>jane@x.org\<close>, and that every author string with no
  \<open><...>\<close> group gives only \<open>maintainer\<close>, equal to the string trimmed.  The second part
  fails on a string that has a \<open><\<close> but no group: the name stops before the first
  \<open><\<close>, whatever follows it.
\<close>

theorem author_without_group_counterexample:
  "datapackage_to_dataset ext_spec
     \<lparr>descriptor = [(''name'', PStr ''pkg''), (''author'', PStr ''Jane <abc'')],
      resources = []\<rparr>
   = Inr [(''name'', PStr ''pkg''), (''maintainer'', PStr ''Jane'')]"
  by (simp add: datapackage_to_dataset_def lowered_name_def dict_item_def lower_def
      lower_char_def datapackage_parsers_def rename_dict_key_def datapackage_parse_license_def
      datapackage_parse_sources_def datapackage_parse_author_def match_author_def
      email_group_def emit_maintainer_def strip_def is_space_def
      datapackage_parse_keywords_def datapackage_parse_unknown_fields_as_extras_def
      known_fields_def dict_get_def)

text \<open>
  Claim C8 as amended: for a package that converts (a string name, license, sources and
  keywords that parse, every resource in a mode) and whose author is a string, the
  author \<open>Jane Doe <jane@x.org>\<close> gives \<open>maintainer\<close> \<open>Jane Doe\<close> and
  \<open>maintainer_email\<close> \<open>jane@x.org\<close>; a non-empty author without any \<open><\<close> gives only
  \<open>maintainer\<close>, the string trimmed; and in general a non-empty author in which the
  pattern finds a name and no e-mail group gives only \<open>maintainer\<close>, the part before the
  first \<open><\<close> trimmed.
\<close>

theorem author_string_conversion:
  assumes "map_of (package.descriptor p) ''name'' = Some (PStr s)"
    and "datapackage_parse_license (package.descriptor p) = Inr l"
    and "datapackage_parse_sources (package.descriptor p) = Inr so"
    and "datapackage_parse_keywords X (package.descriptor p) = Inr k"
    and "\<forall>r \<in> set (resources p). local r \<or> remote r \<or> inline r"
    and "map_of (package.descriptor p) ''author'' = Some (PStr au)"
  shows "(au = ''Jane Doe <jane@x.org>'' \<longrightarrow>
            (\<exists>out. datapackage_to_dataset X p = Inr out
               \<and> map_of out ''maintainer'' = Some (PStr ''Jane Doe'')
               \<and> map_of out ''maintainer_email'' = Some (PStr ''jane@x.org'')))
       \<and> (au \<noteq> [] \<and> CHR ''<'' \<notin> set au \<longrightarrow>
            (\<exists>out. datapackage_to_dataset X p = Inr out
               \<and> map_of out ''maintainer'' = Some (PStr (strip au))
               \<and> map_of out ''maintainer_email'' = None))
       \<and> (au \<noteq> [] \<and> match_author au = Some (n, None) \<longrightarrow>
            n = takeWhile (\<lambda>c. c \<noteq> CHR ''<'') au
            \<and> (\<exists>out. datapackage_to_dataset X p = Inr out
               \<and> map_of out ''maintainer'' = Some (PStr (strip n))
               \<and> map_of out ''maintainer_email'' = None))"
proof (intro conjI impI)
  assume "au = ''Jane Doe <jane@x.org>''"
  with assms(6) have a: "datapackage_parse_author (package.descriptor p) =
      Inr [(''maintainer'', PStr ''Jane Doe''), (''maintainer_email'', PStr ''jane@x.org'')]"
    by (simp add: parse_author_jane)
  from datapackage_to_dataset_keys [OF assms(1-3) a assms(4,5)]
  show "\<exists>out. datapackage_to_dataset X p = Inr out
               \<and> map_of out ''maintainer'' = Some (PStr ''Jane Doe'')
               \<and> map_of out ''maintainer_email'' = Some (PStr ''jane@x.org'')"
    by auto
next
  assume h: "au \<noteq> [] \<and> CHR ''<'' \<notin> set au"
  then have m: "match_author au = Some (au, None)" by (simp add: match_author_plain)
  from h parse_author_no_email(1) [OF assms(6) m]
  have a: "datapackage_parse_author (package.descriptor p) = Inr [(''maintainer'', PStr (strip au))]"
    by simp
  from datapackage_to_dataset_keys [OF assms(1-3) a assms(4,5)]
  show "\<exists>out. datapackage_to_dataset X p = Inr out
               \<and> map_of out ''maintainer'' = Some (PStr (strip au))
               \<and> map_of out ''maintainer_email'' = None"
    by auto
next
  assume h: "au \<noteq> [] \<and> match_author au = Some (n, None)"
  then show "n = takeWhile (\<lambda>c. c \<noteq> CHR ''<'') au"
    using parse_author_no_email(2) [OF assms(6)] by blast
  from h parse_author_no_email(1) [OF assms(6)]
  have a: "datapackage_parse_author (package.descriptor p) = Inr [(''maintainer'', PStr (strip n))]"
    by blast
  from datapackage_to_dataset_keys [OF assms(1-3) a assms(4,5)]
  show "\<exists>out. datapackage_to_dataset X p = Inr out
               \<and> map_of out ''maintainer'' = Some (PStr (strip n))
               \<and> map_of out ''maintainer_email'' = None"
    by auto
qed


theorem author_string_conversion_witness:
  "(\<exists>out. datapackage_to_dataset ext_spec
             \<lparr>descriptor = [(''name'', PStr ''pkg''),
                             (''author'', PStr ''Jane Doe <jane@x.org>'')],
              resources = []\<rparr> = Inr out
        \<and> map_of out ''maintainer'' = Some (PStr ''Jane Doe'')
        \<and> map_of out ''maintainer_email'' = Some (PStr ''jane@x.org''))
   \<and> (\<exists>out. datapackage_to_dataset ext_spec
             \<lparr>descriptor = [(''name'', PStr ''pkg''), (''author'', PStr ''  Bob Ray '')],
              resources = []\<rparr> = Inr out
        \<and> map_of out ''maintainer'' = Some (PStr ''Bob Ray'')
        \<and> map_of out ''maintainer_email'' = None)
   \<and> (\<exists>out. datapackage_to_dataset ext_spec
             \<lparr>descriptor = [(''name'', PStr ''pkg''), (''author'', PStr ''Jane <abc'')],
              resources = []\<rparr> = Inr out
        \<and> map_of out ''maintainer'' = Some (PStr ''Jane'')
        \<and> map_of out ''maintainer_email'' = None)
   \<and> datapackage_to_dataset ext_spec
        \<lparr>descriptor = [(''name'', PStr ''pkg''), (''author'', PStr ''Jane Doe <jane@x.org>'')],
         resources = []\<rparr>
       = Inr [(''name'', PStr ''pkg''), (''maintainer'', PStr ''Jane Doe''),
              (''maintainer_email'', PStr ''jane@x.org'')]"
proof -
  let ?d1 = "[(''name'', PStr ''pkg''), (''author'', PStr ''Jane Doe <jane@x.org>'')]"
  let ?d2 = "[(''name'', PStr ''pkg''), (''author'', PStr ''  Bob Ray '')]"
  let ?d3 = "[(''name'', PStr ''pkg''), (''author'', PStr ''Jane <abc'')]"
  have p: "datapackage_parse_license [(''name'', PStr ''pkg''), (''author'', PStr x)] = Inr []"
      "datapackage_parse_sources [(''name'', PStr ''pkg''), (''author'', PStr x)] = Inr []"
      "datapackage_parse_keywords ext_spec [(''name'', PStr ''pkg''), (''author'', PStr x)]
         = Inr []" for x
    by (simp_all add: datapackage_parse_license_def datapackage_parse_sources_def
        datapackage_parse_keywords_def dict_get_def)
  have a: "\<exists>out. datapackage_to_dataset ext_spec \<lparr>descriptor = ?d1, resources = []\<rparr> = Inr out
        \<and> map_of out ''maintainer'' = Some (PStr ''Jane Doe'')
        \<and> map_of out ''maintainer_email'' = Some (PStr ''jane@x.org'')"
    using author_string_conversion [of "\<lparr>descriptor = ?d1, resources = []\<rparr>" "''pkg''" "[]"
        "[]" ext_spec "[]" "''Jane Doe <jane@x.org>''"] p
    by simp
  have st: "strip ''  Bob Ray '' = ''Bob Ray''"
    by (simp add: strip_def is_space_def)
  have b: "\<exists>out. datapackage_to_dataset ext_spec \<lparr>descriptor = ?d2, resources = []\<rparr> = Inr out
        \<and> map_of out ''maintainer'' = Some (PStr ''Bob Ray'')
        \<and> map_of out ''maintainer_email'' = None"
    using author_string_conversion [of "\<lparr>descriptor = ?d2, resources = []\<rparr>" "''pkg''" "[]"
        "[]" ext_spec "[]" "''  Bob Ray ''"] p st
    by simp
  have m: "match_author ''Jane <abc'' = Some (''Jane '', None)"
    by (simp add: match_author_def email_group_def is_space_def)
  have st': "strip ''Jane '' = ''Jane''"
    by (simp add: strip_def is_space_def)
  have c: "\<exists>out. datapackage_to_dataset ext_spec \<lparr>descriptor = ?d3, resources = []\<rparr> = Inr out
        \<and> map_of out ''maintainer'' = Some (PStr ''Jane'')
        \<and> map_of out ''maintainer_email'' = None"
    using author_string_conversion [of "\<lparr>descriptor = ?d3, resources = []\<rparr>" "''pkg''" "[]"
        "[]" ext_spec "[]" "''Jane <abc''" "''Jane ''"] p m st'
    by simp
  have e: "datapackage_to_dataset ext_spec \<lparr>descriptor = ?d1, resources = []\<rparr>
       = Inr [(''name'', PStr ''pkg''), (''maintainer'', PStr ''Jane Doe''),
              (''maintainer_email'', PStr ''jane@x.org'')]"
    by (simp add: datapackage_to_dataset_def lowered_name_def dict_item_def lower_def
      lower_char_def datapackage_parsers_def rename_dict_key_def p parse_author_jane
      datapackage_parse_unknown_fields_as_extras_def known_fields_def dict_get_def)
  from a b c e show ?thesis by blast
qed

end
